theory Spec2Isabelle
  imports Main "HOL-Library.AList" "HOL-Library.Char_ord" "HOL-Library.List_Lexorder"
    "HOL-Library.Multiset"
begin

section \<open>Python values and built-ins\<close>

text \<open>
  The pipelines work on decoded JSON: every raw record is a Python \<open>dict\<close> whose values
  are \<open>None\<close>, booleans, integers, floats, strings, lists and further dicts. Rows
  additionally carry \<open>datetime\<close> objects (the processing timestamp). A dict is an
  association list in insertion order; lookup takes the first binding of a key.
  Strings are byte strings (ASCII); Python's unbounded integers are \<open>int\<close>.

  Floating-point numbers are not interpreted: the type of floats is a parameter \<open>'f\<close>
  and every built-in operation on floats, together with the few other interpreter
  services the code relies on (\<open>repr\<close> of a string, \<open>str\<close> of a datetime, \<open>eval\<close>),
  is a field of the record \<open>builtins\<close> that the modelled functions receive.
\<close>

datatype py_error =
  KeyError | TypeError | ValueError | AttributeError | NameError | IndexError | OverflowError

datatype 'f pyval =
    PNone
  | PBool bool
  | PInt int
  | PFloat 'f
  | PStr string
  | PList "'f pyval list"
  | PDict "(string \<times> 'f pyval) list"
  | PDatetime nat

record 'f builtins =
  float_of_int :: "int \<Rightarrow> 'f option"
  float_of_str :: "string \<Rightarrow> 'f option"
  int_of_float :: "'f \<Rightarrow> py_error + int"
  float_is_zero :: "'f \<Rightarrow> bool"
  float_zero :: "'f"
  float_neg :: "'f \<Rightarrow> 'f"
  float_mul :: "'f \<Rightarrow> 'f \<Rightarrow> 'f"
  float_sub :: "'f \<Rightarrow> 'f \<Rightarrow> 'f"
  str_of_float :: "'f \<Rightarrow> string"
  repr_of_str :: "string \<Rightarrow> string"
  str_of_datetime :: "nat \<Rightarrow> string"
  isoformat :: "nat \<Rightarrow> string"
  py_eval :: "string \<Rightarrow> 'f pyval \<Rightarrow> 'f pyval option"

subsection \<open>Strings\<close>

text \<open>\<open>s.split(c)\<close> for a one-character separator: never empty, keeps empty pieces.\<close>

fun split_on :: "char \<Rightarrow> string \<Rightarrow> string list" where
  "split_on c [] = [[]]"
| "split_on c (x # xs) =
     (if x = c then [] # split_on c xs
      else (case split_on c xs of [] \<Rightarrow> [[x]] | w # ws \<Rightarrow> (x # w) # ws))"

text \<open>\<open>d.join(ss)\<close>.\<close>

fun join :: "string \<Rightarrow> string list \<Rightarrow> string" where
  "join d [] = []"
| "join d [s] = s"
| "join d (s # t # ss) = s @ d @ join d (t # ss)"

definition is_digit_char :: "char \<Rightarrow> bool" where
  "is_digit_char c \<longleftrightarrow> (48::nat) \<le> of_char c \<and> of_char c \<le> (57::nat)"

text \<open>\<open>s.isdigit()\<close>: at least one character and all of them decimal digits.\<close>

definition isdigit :: "string \<Rightarrow> bool" where
  "isdigit s \<longleftrightarrow> s \<noteq> [] \<and> list_all is_digit_char s"

definition digit_value :: "char \<Rightarrow> nat" where
  "digit_value c = of_char c - 48"

text \<open>The value of a string of decimal digits, most significant digit first.\<close>

definition nat_of_digits :: "string \<Rightarrow> nat" where
  "nat_of_digits s = foldl (\<lambda>a c. 10 * a + digit_value c) 0 s"

fun digits_of_nat :: "nat \<Rightarrow> string" where
  "digits_of_nat n =
     (if n < 10 then [char_of (48 + n)]
      else digits_of_nat (n div 10) @ [char_of (48 + n mod 10)])"

declare digits_of_nat.simps [simp del]

text \<open>\<open>sub in s\<close> for two strings.\<close>

fun contains :: "string \<Rightarrow> string \<Rightarrow> bool" where
  "contains sub [] = (sub = [])"
| "contains sub (x # xs) = (take (length sub) (x # xs) = sub \<or> contains sub xs)"

text \<open>
  The whitespace that \<open>int(s)\<close> skips around the digits of an ASCII string: tab, line
  feed, vertical tab, form feed, carriage return and space.
\<close>

definition is_space :: "char \<Rightarrow> bool" where
  "is_space c \<longleftrightarrow> (let n = (of_char c :: nat) in (9 \<le> n \<and> n \<le> 13) \<or> n = 32)"

definition strip :: "string \<Rightarrow> string" where
  "strip s = rev (dropWhile is_space (rev (dropWhile is_space s)))"

subsection \<open>Conversions\<close>

text \<open>
  The body of an integer literal accepted by \<open>int(s)\<close>: groups of digits separated by
  single underscores.
\<close>

definition valid_int_body :: "string \<Rightarrow> bool" where
  "valid_int_body s \<longleftrightarrow> list_all isdigit (split_on CHR ''_'' s)"

definition int_body_value :: "string \<Rightarrow> nat" where
  "int_body_value s = nat_of_digits (filter (\<lambda>c. c \<noteq> CHR ''_'') s)"

text \<open>
  \<open>int(s)\<close> for a string: surrounding whitespace is dropped, one sign is allowed.
  (The limit that recent interpreters put on the number of digits, 4300 by default, is
  not modelled; it does not concern 64-bit values.)
\<close>

definition py_int_of_str :: "string \<Rightarrow> py_error + int" where
  "py_int_of_str s =
     (case strip s of
        [] \<Rightarrow> Inl ValueError
      | c # r \<Rightarrow>
          if c = CHR ''-'' then (if valid_int_body r then Inr (- int (int_body_value r)) else Inl ValueError)
          else if c = CHR ''+'' then (if valid_int_body r then Inr (int (int_body_value r)) else Inl ValueError)
          else if valid_int_body (c # r) then Inr (int (int_body_value (c # r)))
          else Inl ValueError)"

definition py_str_of_int :: "int \<Rightarrow> string" where
  "py_str_of_int n = (if n < 0 then CHR ''-'' # digits_of_nat (nat (- n)) else digits_of_nat (nat n))"

text \<open>\<open>int(v)\<close>.\<close>

fun py_int :: "'f builtins \<Rightarrow> 'f pyval \<Rightarrow> py_error + int" where
  "py_int b (PBool v) = Inr (if v then 1 else 0)"
| "py_int b (PInt n) = Inr n"
| "py_int b (PFloat x) = int_of_float b x"
| "py_int b (PStr s) = py_int_of_str s"
| "py_int b _ = Inl TypeError"

text \<open>\<open>float(v)\<close>; converting an integer that is too large raises \<open>OverflowError\<close>.\<close>

fun py_float :: "'f builtins \<Rightarrow> 'f pyval \<Rightarrow> py_error + 'f" where
  "py_float b (PBool v) =
     (case float_of_int b (if v then 1 else 0) of None \<Rightarrow> Inl OverflowError | Some x \<Rightarrow> Inr x)"
| "py_float b (PInt n) =
     (case float_of_int b n of None \<Rightarrow> Inl OverflowError | Some x \<Rightarrow> Inr x)"
| "py_float b (PFloat x) = Inr x"
| "py_float b (PStr s) =
     (case float_of_str b s of None \<Rightarrow> Inl ValueError | Some x \<Rightarrow> Inr x)"
| "py_float b _ = Inl TypeError"

text \<open>\<open>bool(v)\<close>, the truth value of an object.\<close>

fun truthy :: "'f builtins \<Rightarrow> 'f pyval \<Rightarrow> bool" where
  "truthy b PNone = False"
| "truthy b (PBool v) = v"
| "truthy b (PInt n) = (n \<noteq> 0)"
| "truthy b (PFloat x) = (\<not> float_is_zero b x)"
| "truthy b (PStr s) = (s \<noteq> [])"
| "truthy b (PList xs) = (xs \<noteq> [])"
| "truthy b (PDict kvs) = (kvs \<noteq> [])"
| "truthy b (PDatetime t) = True"

text \<open>\<open>repr(v)\<close> and \<open>str(v)\<close>; they differ on strings only.\<close>

fun py_repr :: "'f builtins \<Rightarrow> 'f pyval \<Rightarrow> string" where
  "py_repr b PNone = ''None''"
| "py_repr b (PBool v) = (if v then ''True'' else ''False'')"
| "py_repr b (PInt n) = py_str_of_int n"
| "py_repr b (PFloat x) = str_of_float b x"
| "py_repr b (PStr s) = repr_of_str b s"
| "py_repr b (PList xs) = ''['' @ join '', '' (map (py_repr b) xs) @ '']''"
| "py_repr b (PDict kvs) =
     ''{'' @ join '', '' (map (\<lambda>(k, v). repr_of_str b k @ '': '' @ py_repr b v) kvs) @ ''}''"
| "py_repr b (PDatetime t) = str_of_datetime b t"

definition py_str :: "'f builtins \<Rightarrow> 'f pyval \<Rightarrow> string" where
  "py_str b v = (case v of PStr s \<Rightarrow> s | _ \<Rightarrow> py_repr b v)"

subsection \<open>Dictionaries and iteration\<close>

text \<open>\<open>k in d\<close>, \<open>d.get(k, default)\<close> and \<open>d[k] = v\<close> on an insertion-ordered dict.\<close>

definition has_key :: "(string \<times> 'v) list \<Rightarrow> string \<Rightarrow> bool" where
  "has_key d k \<longleftrightarrow> map_of d k \<noteq> None"

definition dict_get :: "(string \<times> 'v) list \<Rightarrow> string \<Rightarrow> 'v \<Rightarrow> 'v" where
  "dict_get d k dflt = (case map_of d k of None \<Rightarrow> dflt | Some v \<Rightarrow> v)"

definition dict_set :: "(string \<times> 'v) list \<Rightarrow> string \<Rightarrow> 'v \<Rightarrow> (string \<times> 'v) list" where
  "dict_set d k v = AList.update k v d"

text \<open>\<open>v.get(k, default)\<close> on an arbitrary object: only dicts have the method.\<close>

definition py_get :: "'f pyval \<Rightarrow> string \<Rightarrow> 'f pyval \<Rightarrow> py_error + 'f pyval" where
  "py_get v k dflt = (case v of PDict d \<Rightarrow> Inr (dict_get d k dflt) | _ \<Rightarrow> Inl AttributeError)"

text \<open>
  The elements a \<open>for\<close> loop sees: the items of a list, the keys of a dict, the
  characters of a string; other values are not iterable.
\<close>

definition py_iter :: "'f pyval \<Rightarrow> py_error + 'f pyval list" where
  "py_iter v =
     (case v of
        PList xs \<Rightarrow> Inr xs
      | PDict d \<Rightarrow> Inr (map (\<lambda>kv. PStr (fst kv)) d)
      | PStr s \<Rightarrow> Inr (map (\<lambda>c. PStr [c]) s)
      | _ \<Rightarrow> Inl TypeError)"

text \<open>\<open>s in v\<close> for a string \<open>s\<close>: key of a dict, element of a list, substring of a string.\<close>

definition py_contains :: "string \<Rightarrow> 'f pyval \<Rightarrow> py_error + bool" where
  "py_contains s v =
     (case v of
        PDict d \<Rightarrow> Inr (has_key d s)
      | PList xs \<Rightarrow> Inr (PStr s \<in> set xs)
      | PStr t \<Rightarrow> Inr (contains s t)
      | _ \<Rightarrow> Inl TypeError)"

fun is_list :: "'f pyval \<Rightarrow> bool" where
  "is_list (PList xs) = True"
| "is_list _ = False"

section \<open>Column definitions\<close>

text \<open>
  One entry of \<open>COLUMN_DEFINITIONS\<close>. The keys \<open>name\<close> and \<open>type\<close> are required by the
  configuration parser; every other key is optional and read with \<open>col.get\<close>: a flag
  that is absent is \<open>False\<close>, an absent string is \<open>None\<close>.
\<close>

record column_def =
  name :: string
  col_type :: string
  source_field :: "string option"
  is_nested :: bool
  action_filter :: "string option"
  auto_generate :: bool
  is_value_from :: "string option"
  deep_nested :: bool
  path_to_value :: "string option"
  array_all :: bool
  join_delimiter :: "string option"
  is_breakdown :: bool
  is_table :: bool
  is_unique_id :: bool
  is_date_range :: bool
  filtered :: "string option"
  filter_type :: "string option"
  filter_value :: "string option"
  transform :: "string option"

text \<open>A column definition that sets only \<open>name\<close> and \<open>type\<close>.\<close>

definition column :: "string \<Rightarrow> string \<Rightarrow> column_def" where
  "column n t =
     \<lparr> name = n, col_type = t, source_field = None, is_nested = False, action_filter = None,
       auto_generate = False, is_value_from = None, deep_nested = False, path_to_value = None,
       array_all = False, join_delimiter = None, is_breakdown = False, is_table = False,
       is_unique_id = False, is_date_range = False, filtered = None, filter_type = None,
       filter_value = None, transform = None \<rparr>"

text \<open>Truth value of an optional string: \<open>None\<close> and the empty string are false.\<close>

definition truthy_opt :: "string option \<Rightarrow> bool" where
  "truthy_opt s \<longleftrightarrow> (case s of None \<Rightarrow> False | Some t \<Rightarrow> t \<noteq> [])"

section \<open>Meta Ads: record extraction\<close>

subsection \<open>Deeply nested paths\<close>

text \<open>
  The local variable \<open>array_pos\<close> of \<open>process_record\<close> is assigned only while a path
  with a wildcard is prepared, and it is not reset between columns: it is unbound until
  the first such column, \<open>None\<close> when the path contains \<open>*\<close> but no segment equal to
  \<open>*\<close>, and otherwise the index of the first wildcard segment of the latest such column.
\<close>

datatype array_pos = Unbound | PosNone | Pos nat

text \<open>Index of the first segment equal to \<open>*\<close>, counting from \<open>i\<close>.\<close>

fun first_wildcard :: "nat \<Rightarrow> string list \<Rightarrow> nat option" where
  "first_wildcard i [] = None"
| "first_wildcard i (seg # segs) = (if seg = ''*'' then Some i else first_wildcard (Suc i) segs)"

text \<open>
  Lines 283-296: a path that contains \<open>*\<close> has its first wildcard segment replaced by
  \<open>0\<close> and forces \<open>array_all\<close>. Returns the path, \<open>array_all\<close> and \<open>array_pos\<close>.
\<close>

definition resolve_wildcard :: "string \<Rightarrow> bool \<Rightarrow> array_pos \<Rightarrow> string \<times> bool \<times> array_pos" where
  "resolve_wildcard path aa ap =
     (if CHR ''*'' \<in> set path then
        (let path_segments = split_on CHR ''.'' path in
           case first_wildcard 0 path_segments of
             Some i \<Rightarrow> (join ''.'' (path_segments[i := ''0'']), True, Pos i)
           | None \<Rightarrow> (path, aa, PosNone))
      else (path, aa, ap))"

text \<open>
  Lines 308-344, the walk along the path segments. The loop state is \<open>current_value\<close>,
  \<open>collecting_array\<close> and \<open>array_position\<close>; \<open>i\<close> is the index of the segment at the head
  of the list. Reading \<open>array_pos\<close> while it is unbound raises \<open>NameError\<close>, and
  \<open>array_pos - 1\<close> raises \<open>TypeError\<close> while it is \<open>None\<close>; the conjunctions are
  evaluated left to right, so this happens only where the earlier conjuncts hold.
\<close>

fun navigate ::
  "bool \<Rightarrow> array_pos \<Rightarrow> nat \<Rightarrow> string list \<Rightarrow> 'f pyval \<Rightarrow> bool \<Rightarrow> int
     \<Rightarrow> py_error + ('f pyval \<times> bool \<times> int)" where
  "navigate aa ap i [] cur coll apn = Inr (cur, coll, apn)"
| "navigate aa ap i (segment # segs) cur coll apn =
     (if isdigit segment then
        (if aa \<and> \<not> coll \<and> ap = Unbound then Inl NameError
         else
           (let hit = (aa \<and> \<not> coll \<and> ap = Pos i);
                coll' = (if hit then True else coll);
                apn' = (if hit then int i else apn)
            in if hit \<and> is_list cur then Inr (cur, coll', apn')
               else
                 (case cur of
                    PList xs \<Rightarrow>
                      if nat_of_digits segment < length xs
                      then navigate aa ap (Suc i) segs (xs ! nat_of_digits segment) coll' apn'
                      else Inr (PStr [], coll', apn')
                  | PDict d \<Rightarrow>
                      (case map_of d segment of
                         Some v \<Rightarrow> navigate aa ap (Suc i) segs v coll' apn'
                       | None \<Rightarrow> Inr (PStr [], coll', apn'))
                  | _ \<Rightarrow> Inr (PStr [], coll', apn'))))
      else
        (case cur of
           PDict d \<Rightarrow>
             (case map_of d segment of
                Some v \<Rightarrow>
                  if is_list v \<and> aa then
                    (case ap of
                       Unbound \<Rightarrow> Inl NameError
                     | PosNone \<Rightarrow> Inl TypeError
                     | Pos p \<Rightarrow>
                         if int i = int p - 1 then Inr (v, True, int i + 1)
                         else navigate aa ap (Suc i) segs v coll apn)
                  else navigate aa ap (Suc i) segs v coll apn
              | None \<Rightarrow> Inr (PStr [], coll, apn))
         | _ \<Rightarrow> Inr (PStr [], coll, apn)))"

text \<open>Lines 356-368: the remaining path segments applied to one array item.\<close>

fun apply_remaining :: "string list \<Rightarrow> 'f pyval \<Rightarrow> 'f pyval" where
  "apply_remaining [] item_value = item_value"
| "apply_remaining (segment # segs) item_value =
     (case item_value of
        PDict d \<Rightarrow>
          (case map_of d segment of
             Some v \<Rightarrow> apply_remaining segs v
           | None \<Rightarrow> PStr [])
      | PList xs \<Rightarrow>
          if isdigit segment then
            (if nat_of_digits segment < length xs
             then apply_remaining segs (xs ! nat_of_digits segment)
             else PStr [])
          else PStr []
      | _ \<Rightarrow> PStr [])"

text \<open>Lines 352-373: the strings collected from the items; \<open>None\<close> results are left out.\<close>

definition collect_array_values :: "'f builtins \<Rightarrow> string list \<Rightarrow> 'f pyval list \<Rightarrow> string list" where
  "collect_array_values b remaining_path items =
     map (py_str b) (filter (\<lambda>v. v \<noteq> PNone) (map (apply_remaining remaining_path) items))"

text \<open>
  Lines 280-390, the branch for \<open>deep_nested\<close> columns with a \<open>path_to_value\<close>. Every
  exception inside is caught and an empty string is appended. Returns the value
  appended to the row and the new \<open>array_pos\<close>.
\<close>

definition deep_nested_value ::
  "'f builtins \<Rightarrow> (string \<times> 'f pyval) list \<Rightarrow> column_def \<Rightarrow> string \<Rightarrow> array_pos
     \<Rightarrow> 'f pyval \<times> array_pos" where
  "deep_nested_value b record col path ap =
     (case resolve_wildcard path (array_all col) ap of
        (path', aa, ap') \<Rightarrow>
          (let path_segments = split_on CHR ''.'' path' in
             case navigate aa ap' 0 path_segments (PDict record) False (- 1) of
               Inl e \<Rightarrow> (PStr [], ap')
             | Inr (cur, coll, apn) \<Rightarrow>
                 if coll \<and> cur \<noteq> PNone \<and> is_list cur then
                   (let remaining_path =
                          (if apn < int (length path_segments) - 1
                           then drop (nat (apn + 1)) path_segments else []);
                        array_values =
                          collect_array_values b remaining_path (case cur of PList xs \<Rightarrow> xs | _ \<Rightarrow> [])
                    in case array_values of
                         [] \<Rightarrow> (PStr [], ap')
                       | v # vs \<Rightarrow>
                           if aa then
                             (PStr (join (case join_delimiter col of None \<Rightarrow> '','' | Some d \<Rightarrow> d)
                                      array_values), ap')
                           else (PStr v, ap'))
                 else ((if cur = PNone then PStr [] else cur), ap')))"

subsection \<open>Nested action arrays and direct fields\<close>

text \<open>
  Lines 396-401 and 404-409: the first action whose \<open>action_type\<close> equals the filter
  gives its \<open>value\<close> (or the empty string when it has none); the \<open>else\<close> of the loop
  appends the empty string. An element that is not a dict has no \<open>get\<close>.
\<close>

fun find_action :: "string \<Rightarrow> 'f pyval list \<Rightarrow> py_error + 'f pyval" where
  "find_action af [] = Inr (PStr [])"
| "find_action af (action # actions) =
     (case py_get action ''action_type'' PNone of
        Inl e \<Rightarrow> Inl e
      | Inr t \<Rightarrow> if t = PStr af then py_get action ''value'' (PStr []) else find_action af actions)"

definition scan_actions :: "string \<Rightarrow> 'f pyval \<Rightarrow> py_error + 'f pyval" where
  "scan_actions af arr = (case py_iter arr of Inl e \<Rightarrow> Inl e | Inr xs \<Rightarrow> find_action af xs)"

text \<open>Lines 393-411.\<close>

definition action_filter_value ::
  "(string \<times> 'f pyval) list \<Rightarrow> column_def \<Rightarrow> string \<Rightarrow> py_error + 'f pyval" where
  "action_filter_value record col af =
     (if is_value_from col = Some ''action_values'' \<and> has_key record ''action_values''
      then scan_actions af (dict_get record ''action_values'' (PList []))
      else if has_key record ''actions''
      then scan_actions af (dict_get record ''actions'' (PList []))
      else Inr (PStr []))"

text \<open>
  Line 419, \<open>next((a for a in xs if "value" in a), None)\<close>: the first element that
  contains \<open>"value"\<close>; the membership test raises on elements that are not containers.
\<close>

fun first_with_value :: "'f pyval list \<Rightarrow> py_error + 'f pyval option" where
  "first_with_value [] = Inr None"
| "first_with_value (a # as) =
     (case py_contains ''value'' a of
        Inl e \<Rightarrow> Inl e
      | Inr True \<Rightarrow> Inr (Some a)
      | Inr False \<Rightarrow> first_with_value as)"

text \<open>
  Lines 414-430. \<open>"." in source_field\<close> raises \<open>TypeError\<close> when the column has no
  \<open>source_field\<close>, and unpacking the split into two names raises \<open>ValueError\<close> unless the
  field has exactly one dot.
\<close>

definition nested_value ::
  "'f builtins \<Rightarrow> (string \<times> 'f pyval) list \<Rightarrow> column_def \<Rightarrow> py_error + 'f pyval" where
  "nested_value b record col =
     (case source_field col of
        None \<Rightarrow> Inl TypeError
      | Some sf \<Rightarrow>
          if CHR ''.'' \<in> set sf then
            (case split_on CHR ''.'' sf of
               [parent_field, child_field] \<Rightarrow>
                 if has_key record parent_field \<and> truthy b (dict_get record parent_field PNone) then
                   (case py_iter (dict_get record parent_field PNone) of
                      Inl e \<Rightarrow> Inl e
                    | Inr xs \<Rightarrow>
                        (case first_with_value xs of
                           Inl e \<Rightarrow> Inl e
                         | Inr None \<Rightarrow> Inr (PStr [])
                         | Inr (Some action) \<Rightarrow>
                             if truthy b action then
                               (if child_field = ''action_type''
                                then py_get action ''action_type'' (PStr [])
                                else py_get action ''value'' (PStr []))
                             else Inr (PStr [])))
                 else Inr (PStr [])
             | _ \<Rightarrow> Inl ValueError)
          else Inr (PStr []))"

text \<open>
  Lines 433-445. \<open>record.get(None, "")\<close> is the empty string. For \<open>campaign_id\<close> only
  \<open>ValueError\<close> and \<open>TypeError\<close> are caught.
\<close>

definition direct_value ::
  "'f builtins \<Rightarrow> (string \<times> 'f pyval) list \<Rightarrow> column_def \<Rightarrow> py_error + 'f pyval" where
  "direct_value b record col =
     (case source_field col of
        None \<Rightarrow> Inr (PStr [])
      | Some sf \<Rightarrow>
          if sf = ''campaign_id'' \<and> truthy b (dict_get record sf PNone) then
            (case py_int b (dict_get record sf PNone) of
               Inr n \<Rightarrow> Inr (PInt n)
             | Inl e \<Rightarrow> if e = ValueError \<or> e = TypeError then Inr (PStr []) else Inl e)
          else Inr (dict_get record sf (PStr [])))"

subsection \<open>\<open>process_record\<close>\<close>

text \<open>
  The body of the loop over the column definitions (lines 259-445): the value appended
  to \<open>result\<close> for one column, or the exception that leaves the function, and the value
  of \<open>array_pos\<close> afterwards. \<open>now\<close> is what \<open>datetime.now()\<close> returns.
\<close>

definition process_column ::
  "'f builtins \<Rightarrow> nat \<Rightarrow> (string \<times> 'f pyval) list \<Rightarrow> array_pos \<Rightarrow> column_def
     \<Rightarrow> (py_error + 'f pyval) \<times> array_pos" where
  "process_column b now record ap col =
     (if auto_generate col then
        (Inr (if name col = ''processed_at'' then PDatetime now else PStr []), ap)
      else if deep_nested col \<and> truthy_opt (path_to_value col) then
        (case deep_nested_value b record col (the (path_to_value col)) ap of
           (v, ap') \<Rightarrow> (Inr v, ap'))
      else if is_nested col \<and> truthy_opt (action_filter col) then
        (action_filter_value record col (the (action_filter col)), ap)
      else if is_nested col then (nested_value b record col, ap)
      else (direct_value b record col, ap))"

fun process_columns ::
  "'f builtins \<Rightarrow> nat \<Rightarrow> (string \<times> 'f pyval) list \<Rightarrow> column_def list \<Rightarrow> array_pos
     \<Rightarrow> 'f pyval list \<Rightarrow> py_error + 'f pyval list" where
  "process_columns b now record [] ap result = Inr result"
| "process_columns b now record (col # cols) ap result =
     (case process_column b now record ap col of
        (Inl e, ap') \<Rightarrow> Inl e
      | (Inr v, ap') \<Rightarrow> process_columns b now record cols ap' (result @ [v]))"

text \<open>\<open>MetaAdsPipeline.process_record\<close>, with \<open>self.column_definitions\<close> as a parameter.\<close>

definition process_record ::
  "'f builtins \<Rightarrow> nat \<Rightarrow> column_def list \<Rightarrow> (string \<times> 'f pyval) list \<Rightarrow> py_error + 'f pyval list" where
  "process_record b now column_definitions record =
     process_columns b now record column_definitions Unbound []"

subsection \<open>\<open>process_nested_response\<close>\<close>

text \<open>
  Lines 477-486: the fields of the record that hold a dict with a \<open>data\<close> list, in the
  order of the record, and for those that also carry \<open>paging.next\<close> the URL of the next
  page. \<open>"next" in paging\<close> and \<open>paging["next"]\<close> raise \<open>TypeError\<close> on values that do
  not support them.
\<close>

definition py_index_str :: "'f pyval \<Rightarrow> string \<Rightarrow> py_error + 'f pyval" where
  "py_index_str v k =
     (case v of
        PDict d \<Rightarrow> (case map_of d k of None \<Rightarrow> Inl KeyError | Some w \<Rightarrow> Inr w)
      | _ \<Rightarrow> Inl TypeError)"

fun scan_fields ::
  "(string \<times> 'f pyval) list
     \<Rightarrow> py_error + ((string \<times> 'f pyval list) list \<times> (string \<times> 'f pyval) list)" where
  "scan_fields [] = Inr ([], [])"
| "scan_fields ((field_name, field_value) # later_fields) =
     (case field_value of
        PDict d \<Rightarrow>
          (case map_of d ''data'' of
             Some (PList items) \<Rightarrow>
               (case (if has_key d ''paging''
                      then (case py_contains ''next'' (dict_get d ''paging'' PNone) of
                              Inl e \<Rightarrow> Inl e
                            | Inr False \<Rightarrow> Inr []
                            | Inr True \<Rightarrow>
                                (case py_index_str (dict_get d ''paging'' PNone) ''next'' of
                                   Inl e \<Rightarrow> Inl e
                                 | Inr url \<Rightarrow> Inr [(field_name, url)]))
                      else Inr []) of
                  Inl e \<Rightarrow> Inl e
                | Inr pag \<Rightarrow>
                    (case scan_fields later_fields of
                       Inl e \<Rightarrow> Inl e
                     | Inr (nested_arrays, nested_paginations) \<Rightarrow>
                         Inr ((field_name, items) # nested_arrays, pag @ nested_paginations)))
           | _ \<Rightarrow> scan_fields later_fields)
      | _ \<Rightarrow> scan_fields later_fields)"

text \<open>Lists and dicts cannot be members of a \<open>set\<close>.\<close>

fun hashable :: "'f pyval \<Rightarrow> bool" where
  "hashable (PList xs) = False"
| "hashable (PDict d) = False"
| "hashable _ = True"

text \<open>
  Lines 521-531, the body of the \<open>try\<close> for one fetched page: the items that extend
  \<open>all_nested_items\<close> and the URLs appended to the queue. An exception ends the body and
  keeps what was done before it.
\<close>

definition page_step ::
  "'f pyval \<Rightarrow> 'f pyval list \<Rightarrow> 'f pyval set \<Rightarrow> 'f pyval list \<times> 'f pyval list" where
  "page_step pagination_response urls_to_process processed_urls =
     (case pagination_response of
        PDict d \<Rightarrow>
          if has_key d ''data'' then
            (case py_iter (dict_get d ''data'' PNone) of
               Inl e \<Rightarrow> ([], [])
             | Inr items \<Rightarrow>
                 if has_key d ''paging'' then
                   (case py_contains ''next'' (dict_get d ''paging'' PNone) of
                      Inr True \<Rightarrow>
                        (case py_index_str (dict_get d ''paging'' PNone) ''next'' of
                           Inr url \<Rightarrow>
                             if hashable url \<and> url \<notin> processed_urls \<and> url \<notin> set urls_to_process
                             then (items, [url]) else (items, [])
                         | Inl e \<Rightarrow> (items, []))
                    | _ \<Rightarrow> (items, []))
                 else (items, []))
          else ([], [])
      | _ \<Rightarrow> ([], []))"

text \<open>
  Lines 506-535, the queue of pagination URLs of one field. \<open>fetch\<close> is
  \<open>process_url_with_retry\<close>: the decoded response, or \<open>None\<close> when it raises; no URL is
  fetched twice. The loop need not end (every page may name a fresh next page), so the
  result is \<open>None\<close> when it does not.
\<close>

partial_function (option) paginate ::
  "('f pyval \<Rightarrow> 'f pyval option) \<Rightarrow> 'f pyval list \<Rightarrow> 'f pyval set \<Rightarrow> 'f pyval list
     \<Rightarrow> (py_error + 'f pyval list) option" where
  "paginate fetch urls_to_process processed_urls all_nested_items =
     (case urls_to_process of
        [] \<Rightarrow> Some (Inr all_nested_items)
      | next_url # rest \<Rightarrow>
          if \<not> hashable next_url then Some (Inl TypeError)
          else if next_url \<in> processed_urls
          then paginate fetch rest processed_urls all_nested_items
          else
            (case fetch next_url of
               None \<Rightarrow> paginate fetch rest (insert next_url processed_urls) all_nested_items
             | Some pagination_response \<Rightarrow>
                 (case page_step pagination_response rest (insert next_url processed_urls) of
                    (items, urls) \<Rightarrow>
                      paginate fetch (rest @ urls) (insert next_url processed_urls)
                        (all_nested_items @ items))))"

declare paginate.simps [code]

text \<open>
  Lines 538-546 and 550-558: one row per nested item, from a copy of the record in
  which the field holds that item alone. \<open>clock k\<close> is the time read by the \<open>k\<close>-th call
  of \<open>process_record\<close>.
\<close>

fun process_items ::
  "'f builtins \<Rightarrow> (nat \<Rightarrow> nat) \<Rightarrow> nat \<Rightarrow> column_def list \<Rightarrow> (string \<times> 'f pyval) list \<Rightarrow> string
     \<Rightarrow> 'f pyval list \<Rightarrow> py_error + 'f pyval list list" where
  "process_items b clock k cols record field_name [] = Inr []"
| "process_items b clock k cols record field_name (nested_item # nested_items) =
     (case process_record b (clock k) cols
             (dict_set record field_name (PDict [(''data'', PList [nested_item])])) of
        Inl e \<Rightarrow> Inl e
      | Inr row \<Rightarrow>
          (case process_items b clock (Suc k) cols record field_name nested_items of
             Inl e \<Rightarrow> Inl e
           | Inr rows \<Rightarrow> Inr (row # rows)))"

text \<open>Lines 491-546 and 549-558: the loop over the nested arrays of one record.\<close>

fun process_nested_arrays ::
  "'f builtins \<Rightarrow> ('f pyval \<Rightarrow> 'f pyval option) \<Rightarrow> bool \<Rightarrow> (nat \<Rightarrow> nat) \<Rightarrow> nat \<Rightarrow> column_def list
     \<Rightarrow> (string \<times> 'f pyval) list \<Rightarrow> (string \<times> 'f pyval) list \<Rightarrow> (string \<times> 'f pyval list) list
     \<Rightarrow> (py_error + 'f pyval list list) option" where
  "process_nested_arrays b fetch session clock k cols record nested_paginations [] = Some (Inr [])"
| "process_nested_arrays b fetch session clock k cols record nested_paginations
     ((field_name, nested_items) # nested_arrays) =
     (case (if session
            then paginate fetch
                   (map snd (filter (\<lambda>p. fst p = field_name) nested_paginations)) {} nested_items
            else Some (Inr nested_items)) of
        None \<Rightarrow> None
      | Some (Inl e) \<Rightarrow> Some (Inl e)
      | Some (Inr all_nested_items) \<Rightarrow>
          (case process_items b clock k cols record field_name all_nested_items of
             Inl e \<Rightarrow> Some (Inl e)
           | Inr rows \<Rightarrow>
               (case process_nested_arrays b fetch session clock (k + length rows) cols record
                       nested_paginations nested_arrays of
                  None \<Rightarrow> None
                | Some (Inl e) \<Rightarrow> Some (Inl e)
                | Some (Inr rows') \<Rightarrow> Some (Inr (rows @ rows')))))"

text \<open>
  Lines 471-561, the body of the loop over \<open>response["data"]\<close>: the rows that one raw
  record contributes. An element that is not a dict has no \<open>items\<close>.
\<close>

definition process_nested_record ::
  "'f builtins \<Rightarrow> ('f pyval \<Rightarrow> 'f pyval option) \<Rightarrow> bool \<Rightarrow> (nat \<Rightarrow> nat) \<Rightarrow> nat \<Rightarrow> column_def list
     \<Rightarrow> 'f pyval \<Rightarrow> (py_error + 'f pyval list list) option" where
  "process_nested_record b fetch session clock k cols rec =
     (case rec of
        PDict record \<Rightarrow>
          (case scan_fields record of
             Inl e \<Rightarrow> Some (Inl e)
           | Inr (nested_arrays, nested_paginations) \<Rightarrow>
               if nested_arrays \<noteq> [] then
                 process_nested_arrays b fetch session clock k cols record nested_paginations
                   nested_arrays
               else
                 (case process_record b (clock k) cols record of
                    Inl e \<Rightarrow> Some (Inl e)
                  | Inr row \<Rightarrow> Some (Inr [row])))
      | _ \<Rightarrow> Some (Inl AttributeError))"

fun process_nested_records ::
  "'f builtins \<Rightarrow> ('f pyval \<Rightarrow> 'f pyval option) \<Rightarrow> bool \<Rightarrow> (nat \<Rightarrow> nat) \<Rightarrow> nat \<Rightarrow> column_def list
     \<Rightarrow> 'f pyval list \<Rightarrow> (py_error + 'f pyval list list) option" where
  "process_nested_records b fetch session clock k cols [] = Some (Inr [])"
| "process_nested_records b fetch session clock k cols (rec # recs) =
     (case process_nested_record b fetch session clock k cols rec of
        None \<Rightarrow> None
      | Some (Inl e) \<Rightarrow> Some (Inl e)
      | Some (Inr rows) \<Rightarrow>
          (case process_nested_records b fetch session clock (k + length rows) cols recs of
             None \<Rightarrow> None
           | Some (Inl e) \<Rightarrow> Some (Inl e)
           | Some (Inr rows') \<Rightarrow> Some (Inr (rows @ rows'))))"

text \<open>
  \<open>MetaAdsPipeline.process_nested_response\<close>. \<open>session\<close> tells whether a client session
  was passed; \<open>None\<close> is returned when a pagination loop does not end.
\<close>

definition process_nested_response ::
  "'f builtins \<Rightarrow> ('f pyval \<Rightarrow> 'f pyval option) \<Rightarrow> bool \<Rightarrow> (nat \<Rightarrow> nat) \<Rightarrow> column_def list
     \<Rightarrow> (string \<times> 'f pyval) list \<Rightarrow> (py_error + 'f pyval list list) option" where
  "process_nested_response b fetch session clock cols response =
     (if \<not> has_key response ''data'' then Some (Inr [])
      else
        (case py_iter (dict_get response ''data'' PNone) of
           Inl e \<Rightarrow> Some (Inl e)
         | Inr recs \<Rightarrow> process_nested_records b fetch session clock 0 cols recs))"

subsection \<open>\<open>_generate_api_fields\<close>\<close>

text \<open>
  Lines 159-197, the loop over the column definitions. \<open>api_fields\<close> is a \<open>set\<close> and
  \<open>nested_fields\<close> a dict (in insertion order) from a top-level field to the set of child
  fields requested inside it. An absent \<open>source_field\<close> reads as the empty string.
\<close>

definition api_fields_step ::
  "column_def \<Rightarrow> string set \<times> (string \<times> string set) list
     \<Rightarrow> string set \<times> (string \<times> string set) list" where
  "api_fields_step col st =
     (case st of
        (api_fields, nested_fields) \<Rightarrow>
          if auto_generate col \<or> is_breakdown col then (api_fields, nested_fields)
          else
            (let source_field = (case source_field col of None \<Rightarrow> [] | Some s \<Rightarrow> s) in
               if deep_nested col \<and> truthy_opt (path_to_value col) then
                 (let path_segments = split_on CHR ''.'' (the (path_to_value col));
                      top_level = hd path_segments;
                      api_fields' = insert top_level api_fields
                  in if length path_segments > 1 then
                       (let nested_path = filter (\<lambda>segment. \<not> isdigit segment) (tl path_segments);
                            nested_fields' =
                              (if has_key nested_fields top_level then nested_fields
                               else dict_set nested_fields top_level {})
                        in if nested_path \<noteq> [] then
                             (api_fields',
                              dict_set nested_fields' top_level
                                (insert (last nested_path) (dict_get nested_fields' top_level {})))
                           else (api_fields', nested_fields'))
                     else (api_fields', nested_fields))
               else if CHR ''.'' \<in> set source_field then
                 (insert (hd (split_on CHR ''.'' source_field)) api_fields, nested_fields)
               else (insert source_field api_fields, nested_fields)))"

text \<open>
  Lines 206-213: every top-level field with child fields is replaced in the list by
  \<open>parent{child,...}\<close>, the children sorted.
\<close>

definition nested_fields_step :: "string \<times> string set \<Rightarrow> string list \<Rightarrow> string list" where
  "nested_fields_step entry fields_list =
     (case entry of
        (parent_field, child_fields) \<Rightarrow>
          if child_fields \<noteq> {} then
            (if parent_field \<in> set fields_list then remove1 parent_field fields_list else fields_list)
              @ [parent_field @ ''{'' @ join '','' (sorted_list_of_set child_fields) @ ''}'']
          else fields_list)"

text \<open>
  \<open>MetaAdsPipeline._generate_api_fields\<close>. \<open>list(api_fields)\<close> lists a set in the
  order of its hash table, which depends on the interpreter's hash seed; that order is
  the parameter \<open>set_order\<close>.
\<close>

definition generate_api_fields :: "(string set \<Rightarrow> string list) \<Rightarrow> column_def list \<Rightarrow> string" where
  "generate_api_fields set_order column_definitions =
     (case fold api_fields_step column_definitions ({}, []) of
        (api_fields, nested_fields) \<Rightarrow>
          (let fields_list = set_order {field \<in> api_fields. field \<noteq> []}
           in join '','' (sort (fold nested_fields_step nested_fields fields_list))))"

section \<open>Google Ads: query builder, extraction and type conversion\<close>

subsection \<open>\<open>generate_api_query\<close>\<close>

text \<open>
  The state of the loop at lines 365-399: \<open>source_fields\<close>, \<open>table_name\<close>, \<open>date_field\<close>
  and \<open>filters\<close>.
\<close>

definition query_step ::
  "column_def \<Rightarrow> string list \<times> string \<times> string \<times> string list
     \<Rightarrow> string list \<times> string \<times> string \<times> string list" where
  "query_step col st =
     (case st of
        (source_fields, table_name, date_field, filters) \<Rightarrow>
          if is_table col then (source_fields, name col, date_field, filters)
          else if is_unique_id col then (source_fields, table_name, date_field, filters)
          else if is_date_range col then
            (let date_field' = (case source_field col of None \<Rightarrow> ''segments.date'' | Some s \<Rightarrow> s)
             in (source_fields @ [date_field'], table_name, date_field', filters))
          else
            (let filters' =
                   (if filtered col = Some ''true'' \<and> truthy_opt (source_field col)
                       \<and> truthy_opt (filter_type col) \<and> truthy_opt (filter_value col)
                    then filters @ [the (source_field col) @ '' '' @ the (filter_type col)
                                      @ '' '' @ [CHR 0x27] @ the (filter_value col) @ [CHR 0x27]]
                    else filters);
                 source_fields' =
                   (if truthy_opt (source_field col) \<and> source_field col \<noteq> Some ''None''
                    then source_fields @ [the (source_field col)] else source_fields)
             in (source_fields', table_name, date_field, filters')))"

text \<open>Lines 402-405: duplicates removed, the first occurrence kept.\<close>

definition unique_fields :: "string list \<Rightarrow> string list" where
  "unique_fields source_fields =
     fold (\<lambda>field unique. if field \<in> set unique then unique else unique @ [field]) source_fields []"

text \<open>
  \<open>GoogleAdsPipeline.generate_api_query\<close>. Besides the column configuration it reads
  \<open>self.During_period\<close>, \<open>self.start_date\<close> and \<open>self.end_date\<close>, which are fixed when
  the pipeline is created.
\<close>

definition generate_api_query ::
  "column_def list \<Rightarrow> string option \<Rightarrow> string \<Rightarrow> string \<Rightarrow> string option \<Rightarrow> string" where
  "generate_api_query column_config During_period start_date end_date during_period_value =
     (case fold query_step column_config ([], ''campaign'', ''segments.date'', []) of
        (source_fields, table_name, date_field, filters) \<Rightarrow>
          (let nl = [CHR 0x0A];
               select_clause =
                 ''SELECT'' @ nl @ ''    '' @ join ('','' @ nl @ ''    '') (unique_fields source_fields);
               active_during_period =
                 (if truthy_opt during_period_value then during_period_value else During_period);
               during_period =
                 (if truthy_opt active_during_period
                  then ''WHERE '' @ date_field @ '' DURING '' @ the active_during_period
                  else ''WHERE '' @ date_field @ '' BETWEEN '' @ [CHR 0x27] @ start_date @ [CHR 0x27]
                         @ '' AND '' @ [CHR 0x27] @ end_date @ [CHR 0x27]);
               filters_clause = (if filters \<noteq> [] then ''AND '' @ join '' AND '' filters else [])
           in nl @ select_clause @ nl @ ''FROM '' @ table_name @ nl @ during_period @ nl
                @ filters_clause @ nl @ ''ORDER BY '' @ date_field @ '' ASC'' @ nl
                @ ''LIMIT 10000'' @ nl))"

subsection \<open>Type conversion\<close>

text \<open>\<open>GoogleAdsPipeline._get_default_value\<close>.\<close>

definition get_default_value :: "'f builtins \<Rightarrow> string \<Rightarrow> 'f pyval" where
  "get_default_value b bq_type =
     (if bq_type = ''INTEGER'' then PInt 0
      else if bq_type = ''FLOAT64'' then PFloat (float_zero b)
      else if bq_type = ''STRING'' then PStr ''N/A''
      else if bq_type = ''TIMESTAMP'' then PNone
      else if bq_type = ''DATE'' then PNone
      else if bq_type = ''BOOLEAN'' then PBool False
      else PNone)"

text \<open>
  \<open>GoogleAdsPipeline._convert_value_based_on_type\<close>. Every exception of a conversion
  is caught and replaced by the default of the type.
\<close>

definition convert_value_based_on_type :: "'f builtins \<Rightarrow> 'f pyval \<Rightarrow> string \<Rightarrow> 'f pyval" where
  "convert_value_based_on_type b v bq_type =
     (if v = PNone then get_default_value b bq_type
      else if bq_type = ''INTEGER'' then
        (case py_int b v of Inr n \<Rightarrow> PInt n | Inl e \<Rightarrow> get_default_value b bq_type)
      else if bq_type = ''FLOAT64'' then
        (case py_float b v of Inr x \<Rightarrow> PFloat x | Inl e \<Rightarrow> get_default_value b bq_type)
      else if bq_type = ''STRING'' then PStr (py_str b v)
      else if bq_type = ''TIMESTAMP'' then
        (case v of PDatetime t \<Rightarrow> PStr (isoformat b t) | _ \<Rightarrow> v)
      else if bq_type = ''BOOLEAN'' then PBool (truthy b v)
      else v)"

subsection \<open>\<open>_extract_value_from_result\<close>\<close>

definition upper_char :: "char \<Rightarrow> char" where
  "upper_char c =
     (if (97::nat) \<le> of_char c \<and> of_char c \<le> (122::nat) then char_of (of_char c - (32::nat)) else c)"

text \<open>\<open>GoogleAdsPipeline._convert_snake_to_camel\<close>.\<close>

definition convert_snake_to_camel :: "string \<Rightarrow> string" where
  "convert_snake_to_camel path_part =
     (if CHR ''_'' \<notin> set path_part then path_part
      else
        (let segments = split_on CHR ''_'' path_part
         in fold (\<lambda>segment result.
                    case segment of [] \<Rightarrow> result | c # cs \<Rightarrow> result @ upper_char c # cs)
              (tl segments) (hd segments)))"

text \<open>Lines 614-621: the walk through the result; \<open>None\<close> when a part is not found.\<close>

fun walk_result :: "string list \<Rightarrow> 'f pyval \<Rightarrow> 'f pyval option" where
  "walk_result [] current = Some current"
| "walk_result (part # parts) current =
     (case current of
        PDict d \<Rightarrow> (case map_of d part of Some v \<Rightarrow> walk_result parts v | None \<Rightarrow> None)
      | _ \<Rightarrow> None)"

text \<open>
  \<open>GoogleAdsPipeline._extract_value_from_result\<close>. The transformation is a string that
  is evaluated and applied; \<open>py_eval\<close> gives the result, or \<open>None\<close> when evaluating or
  applying it raises, in which case the untransformed value is returned.
\<close>

definition extract_value_from_result ::
  "'f builtins \<Rightarrow> (string \<times> 'f pyval) list \<Rightarrow> string option \<Rightarrow> column_def \<Rightarrow> 'f pyval" where
  "extract_value_from_result b result src col_config =
     (if \<not> truthy_opt src then PNone
      else
        (case walk_result (map convert_snake_to_camel (split_on CHR ''.'' (the src))) (PDict result) of
           None \<Rightarrow> get_default_value b (col_type col_config)
         | Some current \<Rightarrow>
             (case transform col_config of
                Some expr \<Rightarrow> (case py_eval b expr current of Some v \<Rightarrow> v | None \<Rightarrow> current)
              | None \<Rightarrow> convert_value_based_on_type b current (col_type col_config))))"

section \<open>Xero: invoices and credit notes\<close>

subsection \<open>Arithmetic and sequencing\<close>

text \<open>Sequencing of computations that may raise.\<close>

definition and_then :: "py_error + 'a \<Rightarrow> ('a \<Rightarrow> py_error + 'b) \<Rightarrow> py_error + 'b" where
  "and_then m f = (case m of Inl e \<Rightarrow> Inl e | Inr x \<Rightarrow> f x)"

text \<open>A number as Python arithmetic sees it: booleans count as the integers 0 and 1.\<close>

datatype 'f number = NInt int | NFloat 'f

fun as_number :: "'f pyval \<Rightarrow> 'f number option" where
  "as_number (PBool v) = Some (NInt (if v then 1 else 0))"
| "as_number (PInt n) = Some (NInt n)"
| "as_number (PFloat x) = Some (NFloat x)"
| "as_number _ = None"

definition to_float :: "'f builtins \<Rightarrow> 'f number \<Rightarrow> py_error + 'f" where
  "to_float b n =
     (case n of
        NFloat x \<Rightarrow> Inr x
      | NInt i \<Rightarrow> (case float_of_int b i of None \<Rightarrow> Inl OverflowError | Some x \<Rightarrow> Inr x))"

text \<open>
  \<open>x * y\<close>: integer or float product of two numbers (an integer operand of a float
  product is converted first), repetition of a string or list by an integer, and
  \<open>TypeError\<close> otherwise.
\<close>

definition py_mul :: "'f builtins \<Rightarrow> 'f pyval \<Rightarrow> 'f pyval \<Rightarrow> py_error + 'f pyval" where
  "py_mul b x y =
     (case (as_number x, as_number y) of
        (Some (NInt i), Some (NInt j)) \<Rightarrow> Inr (PInt (i * j))
      | (Some m, Some n) \<Rightarrow>
          and_then (to_float b m) (\<lambda>u. and_then (to_float b n) (\<lambda>v. Inr (PFloat (float_mul b u v))))
      | (Some (NInt i), None) \<Rightarrow>
          (case y of
             PStr s \<Rightarrow> Inr (PStr (concat (replicate (nat i) s)))
           | PList xs \<Rightarrow> Inr (PList (concat (replicate (nat i) xs)))
           | _ \<Rightarrow> Inl TypeError)
      | (None, Some (NInt j)) \<Rightarrow>
          (case x of
             PStr s \<Rightarrow> Inr (PStr (concat (replicate (nat j) s)))
           | PList xs \<Rightarrow> Inr (PList (concat (replicate (nat j) xs)))
           | _ \<Rightarrow> Inl TypeError)
      | _ \<Rightarrow> Inl TypeError)"

text \<open>\<open>x - y\<close> on numbers; \<open>TypeError\<close> otherwise.\<close>

definition py_sub :: "'f builtins \<Rightarrow> 'f pyval \<Rightarrow> 'f pyval \<Rightarrow> py_error + 'f pyval" where
  "py_sub b x y =
     (case (as_number x, as_number y) of
        (Some (NInt i), Some (NInt j)) \<Rightarrow> Inr (PInt (i - j))
      | (Some m, Some n) \<Rightarrow>
          and_then (to_float b m) (\<lambda>u. and_then (to_float b n) (\<lambda>v. Inr (PFloat (float_sub b u v))))
      | _ \<Rightarrow> Inl TypeError)"

text \<open>\<open>v[0]\<close>.\<close>

definition py_index0 :: "'f pyval \<Rightarrow> py_error + 'f pyval" where
  "py_index0 v =
     (case v of
        PList xs \<Rightarrow> (case xs of [] \<Rightarrow> Inl IndexError | x # _ \<Rightarrow> Inr x)
      | PStr s \<Rightarrow> (case s of [] \<Rightarrow> Inl IndexError | c # _ \<Rightarrow> Inr (PStr [c]))
      | PDict d \<Rightarrow> Inl KeyError
      | _ \<Rightarrow> Inl TypeError)"

text \<open>
  \<open>XeroDataPipeline.adjust_quantity_for_product\<close>; \<open>product_multipliers\<close> is
  \<open>PRODUCT_QUANTITY_MULTIPLIERS\<close>, a dict from product names to numbers. Looking up a
  list or dict raises \<open>TypeError\<close>; a name that is not a string is not a key.
\<close>

definition adjust_quantity_for_product ::
  "'f builtins \<Rightarrow> (string \<times> 'f pyval) list \<Rightarrow> 'f pyval \<Rightarrow> 'f pyval \<Rightarrow> py_error + 'f pyval" where
  "adjust_quantity_for_product b product_multipliers item_name original_quantity =
     (if \<not> hashable item_name then Inl TypeError
      else
        (case item_name of
           PStr s \<Rightarrow>
             (case map_of product_multipliers s of
                Some m \<Rightarrow> py_mul b original_quantity m
              | None \<Rightarrow> Inr original_quantity)
         | _ \<Rightarrow> Inr original_quantity))"

subsection \<open>\<open>extract_record_values\<close>\<close>

text \<open>\<open>xs[index]\<close> on a list, with Python's negative indices.\<close>

definition list_index :: "'a list \<Rightarrow> int \<Rightarrow> 'a option" where
  "list_index xs index =
     (let n = int (length xs);
          j = (if index < 0 then n + index else index)
      in if 0 \<le> j \<and> j < n then Some (xs ! nat j) else None)"

text \<open>
  Lines 725-743, one part of the path. A part with an index, \<open>field[n]\<close>, needs
  \<open>current\<close> to be a dict that holds a list longer than \<open>n\<close> under \<open>field\<close>; every
  \<open>ValueError\<close>, \<open>TypeError\<close> and \<open>IndexError\<close> on the way makes the result \<open>None\<close>, and
  so does any \<open>current\<close> that is not a dict.
\<close>

definition nested_part :: "bool \<Rightarrow> string \<Rightarrow> 'f pyval \<Rightarrow> 'f pyval option" where
  "nested_part indexed part current =
     (if indexed \<and> CHR ''['' \<in> set part \<and> CHR '']'' \<in> set part then
        (let field_name = hd (split_on CHR ''['' part);
             index_str = hd (split_on CHR '']'' (split_on CHR ''['' part ! 1))
         in case py_int_of_str index_str of
              Inl e \<Rightarrow> None
            | Inr index \<Rightarrow>
                (case current of
                   PDict d \<Rightarrow>
                     (case map_of d field_name of
                        Some (PList xs) \<Rightarrow> if int (length xs) > index then list_index xs index else None
                      | _ \<Rightarrow> None)
                 | _ \<Rightarrow> None))
      else
        (case current of
           PDict d \<Rightarrow> map_of d part
         | _ \<Rightarrow> None))"

fun nested_parts :: "bool \<Rightarrow> string list \<Rightarrow> 'f pyval \<Rightarrow> 'f pyval" where
  "nested_parts indexed [] current = current"
| "nested_parts indexed (part # parts) current =
     (case nested_part indexed part current of
        None \<Rightarrow> PNone
      | Some v \<Rightarrow> nested_parts indexed parts v)"

text \<open>
  \<open>XeroDataPipeline.extract_nested_value\<close>. The index syntax is honoured only when
  the whole path contains both brackets.
\<close>

definition extract_nested_value :: "(string \<times> 'f pyval) list \<Rightarrow> string \<Rightarrow> 'f pyval" where
  "extract_nested_value record field_path =
     nested_parts (CHR ''['' \<in> set field_path \<and> CHR '']'' \<in> set field_path)
       (split_on CHR ''.'' field_path) (PDict record)"

text \<open>
  The body of the loop of \<open>extract_record_values\<close>. A nested column without a
  \<open>source_field\<close> raises \<open>TypeError\<close> (\<open>"[" in None\<close>).
\<close>

definition extract_column ::
  "nat \<Rightarrow> (string \<times> 'f pyval) list \<Rightarrow> column_def \<Rightarrow> py_error + 'f pyval" where
  "extract_column now record col_def =
     (if auto_generate col_def then
        Inr (if name col_def = ''processed_at'' then PDatetime now else PNone)
      else if is_nested col_def then
        (case source_field col_def of
           None \<Rightarrow> Inl TypeError
         | Some field_path \<Rightarrow> Inr (extract_nested_value record field_path))
      else
        (case source_field col_def of
           None \<Rightarrow> Inr PNone
         | Some sf \<Rightarrow> Inr (dict_get record sf PNone)))"

text \<open>\<open>XeroDataPipeline.extract_record_values\<close>; \<open>now\<close> is what \<open>datetime.now()\<close> returns.\<close>

fun extract_record_values ::
  "nat \<Rightarrow> (string \<times> 'f pyval) list \<Rightarrow> column_def list \<Rightarrow> py_error + 'f pyval list" where
  "extract_record_values now record [] = Inr []"
| "extract_record_values now record (col_def # column_definitions) =
     and_then (extract_column now record col_def) (\<lambda>v.
     and_then (extract_record_values now record column_definitions) (\<lambda>vs. Inr (v # vs)))"

subsection \<open>\<open>process_invoices\<close>\<close>

text \<open>
  The first element's field, as in \<open>invoice.get("Payments", [{}])[0].get("Amount", 0) if
  invoice.get("Payments") else 0\<close>.
\<close>

definition first_entry_field ::
  "'f builtins \<Rightarrow> (string \<times> 'f pyval) list \<Rightarrow> string \<Rightarrow> string \<Rightarrow> 'f pyval \<Rightarrow> py_error + 'f pyval" where
  "first_entry_field b d key field dflt =
     (if truthy b (dict_get d key PNone)
      then and_then (py_index0 (dict_get d key (PList [PDict []]))) (\<lambda>first. py_get first field dflt)
      else Inr dflt)"

text \<open>Lines 391-408.\<close>

definition base_invoice_data ::
  "'f builtins \<Rightarrow> (string \<times> 'f pyval) list \<Rightarrow> py_error + (string \<times> 'f pyval) list" where
  "base_invoice_data b invoice =
     and_then (py_get (dict_get invoice ''Contact'' (PDict [])) ''Name'' (PStr ''No Name Provided''))
       (\<lambda>contact_name.
     and_then (first_entry_field b invoice ''Payments'' ''Amount'' (PInt 0)) (\<lambda>amount.
       Inr [(''Type'', dict_get invoice ''Type'' (PStr [])),
            (''InvoiceID'', dict_get invoice ''InvoiceID'' (PStr [])),
            (''InvoiceNumber'', dict_get invoice ''InvoiceNumber'' (PStr [])),
            (''Reference'', dict_get invoice ''Reference'' (PStr [])),
            (''Url'', dict_get invoice ''Url'' (PStr [])),
            (''CurrencyRate'', dict_get invoice ''CurrencyRate'' (PInt 1)),
            (''Contact'', PDict [(''Name'', contact_name)]),
            (''DateString'', dict_get invoice ''DateString'' (PStr [])),
            (''DueDateString'', dict_get invoice ''DueDateString'' (PStr [])),
            (''Status'', dict_get invoice ''Status'' (PStr [])),
            (''CurrencyCode'', dict_get invoice ''CurrencyCode'' (PStr [])),
            (''AmountDue'', dict_get invoice ''AmountDue'' (PInt 0)),
            (''AmountPaid'', dict_get invoice ''AmountPaid'' (PInt 0)),
            (''AmountCredited'', dict_get invoice ''AmountCredited'' (PInt 0)),
            (''SubTotal'', dict_get invoice ''SubTotal'' (PInt 0)),
            (''Payments'', PList [PDict [(''Amount'', amount)]])]))"

text \<open>
  Lines 418 and 544: \<open>line_item.get("Item", {}).get("Name", line_item.get("Description",
  "No Item Name"))\<close>.
\<close>

definition line_item_name :: "'f pyval \<Rightarrow> py_error + 'f pyval" where
  "line_item_name line_item =
     and_then (py_get line_item ''Item'' (PDict [])) (\<lambda>item.
     and_then (py_get line_item ''Description'' (PStr ''No Item Name'')) (\<lambda>description.
       py_get item ''Name'' description))"

text \<open>
  Lines 421-425 and 547-551, before the sign is applied: the line amount, less the tax
  when the document states amounts inclusive of tax and the line has both.
\<close>

definition line_unit_amount ::
  "'f builtins \<Rightarrow> (string \<times> 'f pyval) list \<Rightarrow> 'f pyval \<Rightarrow> py_error + 'f pyval" where
  "line_unit_amount b document line_item =
     (if dict_get document ''LineAmountTypes'' PNone = PStr ''Inclusive'' then
        and_then (py_contains ''LineAmount'' line_item) (\<lambda>has_amount.
          if has_amount then
            and_then (py_contains ''TaxAmount'' line_item) (\<lambda>has_tax.
              if has_tax then
                and_then (py_index_str line_item ''LineAmount'') (\<lambda>amount.
                and_then (py_index_str line_item ''TaxAmount'') (\<lambda>tax. py_sub b amount tax))
              else py_get line_item ''LineAmount'' (PInt 0))
          else py_get line_item ''LineAmount'' (PInt 0))
      else py_get line_item ''LineAmount'' (PInt 0))"

text \<open>Lines 428-436 and 559-567, \<open>line_item_data\<close>.\<close>

definition line_items_entry ::
  "'f pyval \<Rightarrow> 'f pyval \<Rightarrow> 'f pyval \<Rightarrow> 'f pyval \<Rightarrow> 'f pyval \<Rightarrow> 'f pyval" where
  "line_items_entry item_name code quantity unit_amount account_code =
     PDict [(''Item'', PDict [(''Name'', item_name), (''Code'', code)]),
            (''Quantity'', quantity),
            (''UnitAmount'', unit_amount),
            (''AccountCode'', account_code)]"

text \<open>Lines 413-439: the record built for one line item of an invoice.\<close>

definition invoice_line_record ::
  "'f builtins \<Rightarrow> (string \<times> 'f pyval) list \<Rightarrow> (string \<times> 'f pyval) list \<Rightarrow> (string \<times> 'f pyval) list
     \<Rightarrow> 'f pyval \<Rightarrow> py_error + (string \<times> 'f pyval) list" where
  "invoice_line_record b product_multipliers invoice base line_item =
     and_then (line_item_name line_item) (\<lambda>item_name.
     and_then (line_unit_amount b invoice line_item) (\<lambda>unit_amount.
     and_then (py_get line_item ''Item'' (PDict [])) (\<lambda>item.
     and_then (py_get item ''Code'' (PStr ''No Item Code'')) (\<lambda>code.
     and_then (py_get line_item ''Quantity'' (PInt 0)) (\<lambda>original_quantity.
     and_then (adjust_quantity_for_product b product_multipliers item_name original_quantity)
       (\<lambda>quantity.
     and_then (py_get line_item ''AccountCode'' (PStr [])) (\<lambda>account_code.
       Inr (dict_set base ''LineItems''
              (line_items_entry item_name code quantity unit_amount account_code)))))))))"

text \<open>
  The loop over the line items; \<open>clock k\<close> is the time read by the \<open>k\<close>-th call of
  \<open>extract_record_values\<close>.
\<close>

fun invoice_lines ::
  "'f builtins \<Rightarrow> (string \<times> 'f pyval) list \<Rightarrow> column_def list \<Rightarrow> (nat \<Rightarrow> nat) \<Rightarrow> nat
     \<Rightarrow> (string \<times> 'f pyval) list \<Rightarrow> (string \<times> 'f pyval) list \<Rightarrow> 'f pyval list
     \<Rightarrow> py_error + 'f pyval list list" where
  "invoice_lines b product_multipliers cols clock k invoice base [] = Inr []"
| "invoice_lines b product_multipliers cols clock k invoice base (line_item # line_items) =
     and_then (invoice_line_record b product_multipliers invoice base line_item) (\<lambda>record.
     and_then (extract_record_values (clock k) record cols) (\<lambda>processed_record.
     and_then (invoice_lines b product_multipliers cols clock (Suc k) invoice base line_items)
       (\<lambda>rows. Inr (processed_record # rows))))"

text \<open>Lines 389-443, the rows of one invoice.\<close>

definition process_invoice ::
  "'f builtins \<Rightarrow> (string \<times> 'f pyval) list \<Rightarrow> column_def list \<Rightarrow> (nat \<Rightarrow> nat) \<Rightarrow> nat \<Rightarrow> 'f pyval
     \<Rightarrow> py_error + 'f pyval list list" where
  "process_invoice b product_multipliers invoices_columns clock k invoice_obj =
     (case invoice_obj of
        PDict invoice \<Rightarrow>
          and_then (base_invoice_data b invoice) (\<lambda>base.
          and_then (py_iter (dict_get invoice ''LineItems'' (PList []))) (\<lambda>line_items.
            invoice_lines b product_multipliers invoices_columns clock k invoice base line_items))
      | _ \<Rightarrow> Inl AttributeError)"

text \<open>\<open>XeroDataPipeline.process_invoices\<close>.\<close>

fun process_invoices_from ::
  "'f builtins \<Rightarrow> (string \<times> 'f pyval) list \<Rightarrow> column_def list \<Rightarrow> (nat \<Rightarrow> nat) \<Rightarrow> nat
     \<Rightarrow> 'f pyval list \<Rightarrow> py_error + 'f pyval list list" where
  "process_invoices_from b product_multipliers cols clock k [] = Inr []"
| "process_invoices_from b product_multipliers cols clock k (invoice_obj # invoices) =
     and_then (process_invoice b product_multipliers cols clock k invoice_obj) (\<lambda>rows.
     and_then (process_invoices_from b product_multipliers cols clock (k + length rows) invoices)
       (\<lambda>rows'. Inr (rows @ rows')))"

definition process_invoices ::
  "'f builtins \<Rightarrow> (string \<times> 'f pyval) list \<Rightarrow> column_def list \<Rightarrow> (nat \<Rightarrow> nat) \<Rightarrow> 'f pyval list
     \<Rightarrow> py_error + 'f pyval list list" where
  "process_invoices b product_multipliers invoices_columns clock invoices =
     process_invoices_from b product_multipliers invoices_columns clock 0 invoices"

subsection \<open>\<open>process_credit_notes\<close>\<close>

text \<open>Lines 517-530.\<close>

definition base_credit_note_data ::
  "'f builtins \<Rightarrow> (string \<times> 'f pyval) list \<Rightarrow> py_error + (string \<times> 'f pyval) list" where
  "base_credit_note_data b credit_note =
     and_then (py_get (dict_get credit_note ''Contact'' (PDict [])) ''Name'' (PStr ''No Name Provided''))
       (\<lambda>contact_name.
     and_then (first_entry_field b credit_note ''Attachments'' ''Url'' (PStr [])) (\<lambda>url.
       Inr [(''Type'', dict_get credit_note ''Type'' (PStr [])),
            (''CreditNoteID'', dict_get credit_note ''CreditNoteID'' (PStr [])),
            (''CreditNoteNumber'', dict_get credit_note ''CreditNoteNumber'' (PStr [])),
            (''Reference'', dict_get credit_note ''Reference'' (PStr [])),
            (''Total'', dict_get credit_note ''Total'' (PInt 0)),
            (''CurrencyRate'', dict_get credit_note ''CurrencyRate'' (PInt 1)),
            (''Contact'', PDict [(''Name'', contact_name)]),
            (''DateString'', dict_get credit_note ''DateString'' (PStr [])),
            (''Status'', dict_get credit_note ''Status'' (PStr [])),
            (''CurrencyCode'', dict_get credit_note ''CurrencyCode'' (PStr [])),
            (''SubTotal'', dict_get credit_note ''SubTotal'' (PInt 0)),
            (''Attachments'', PList [PDict [(''Url'', url)]])]))"

text \<open>Lines 533-534.\<close>

definition sign_multiplier :: "(string \<times> 'f pyval) list \<Rightarrow> int" where
  "sign_multiplier credit_note =
     (if dict_get credit_note ''Type'' PNone = PStr ''ACCPAYCREDIT'' then 1 else - 1)"

text \<open>
  Lines 539-570: the record built for one line item of a credit note, for a given value
  of \<open>sign_multiplier\<close>.
\<close>

definition credit_note_line_record ::
  "'f builtins \<Rightarrow> (string \<times> 'f pyval) list \<Rightarrow> int \<Rightarrow> (string \<times> 'f pyval) list
     \<Rightarrow> (string \<times> 'f pyval) list \<Rightarrow> 'f pyval \<Rightarrow> py_error + (string \<times> 'f pyval) list" where
  "credit_note_line_record b product_multipliers sign credit_note base line_item =
     and_then (line_item_name line_item) (\<lambda>item_name.
     and_then (line_unit_amount b credit_note line_item) (\<lambda>amount.
     and_then (py_mul b (PInt sign) amount) (\<lambda>unit_amount.
     and_then (py_get line_item ''Quantity'' (PInt 0)) (\<lambda>original_quantity.
     and_then (adjust_quantity_for_product b product_multipliers item_name original_quantity)
       (\<lambda>adjusted.
     and_then (py_mul b (PInt sign) adjusted) (\<lambda>quantity.
     and_then (py_get line_item ''Item'' (PDict [])) (\<lambda>item.
     and_then (py_get item ''Code'' (PStr ''No Item Code'')) (\<lambda>code.
     and_then (py_get line_item ''AccountCode'' (PStr [])) (\<lambda>account_code.
       Inr (dict_set base ''LineItems''
              (line_items_entry item_name code quantity unit_amount account_code)))))))))))"

fun credit_note_lines ::
  "'f builtins \<Rightarrow> (string \<times> 'f pyval) list \<Rightarrow> column_def list \<Rightarrow> (nat \<Rightarrow> nat) \<Rightarrow> nat \<Rightarrow> int
     \<Rightarrow> (string \<times> 'f pyval) list \<Rightarrow> (string \<times> 'f pyval) list \<Rightarrow> 'f pyval list
     \<Rightarrow> py_error + 'f pyval list list" where
  "credit_note_lines b product_multipliers cols clock k sign credit_note base [] = Inr []"
| "credit_note_lines b product_multipliers cols clock k sign credit_note base (line_item # line_items) =
     and_then (credit_note_line_record b product_multipliers sign credit_note base line_item)
       (\<lambda>record.
     and_then (extract_record_values (clock k) record cols) (\<lambda>processed_record.
     and_then (credit_note_lines b product_multipliers cols clock (Suc k) sign credit_note base
                 line_items)
       (\<lambda>rows. Inr (processed_record # rows))))"

text \<open>Lines 515-574, the rows of one credit note.\<close>

definition process_credit_note ::
  "'f builtins \<Rightarrow> (string \<times> 'f pyval) list \<Rightarrow> column_def list \<Rightarrow> (nat \<Rightarrow> nat) \<Rightarrow> nat \<Rightarrow> 'f pyval
     \<Rightarrow> py_error + 'f pyval list list" where
  "process_credit_note b product_multipliers credit_notes_columns clock k credit_note_obj =
     (case credit_note_obj of
        PDict credit_note \<Rightarrow>
          and_then (base_credit_note_data b credit_note) (\<lambda>base.
          and_then (py_iter (dict_get credit_note ''LineItems'' (PList []))) (\<lambda>line_items.
            credit_note_lines b product_multipliers credit_notes_columns clock k
              (sign_multiplier credit_note) credit_note base line_items))
      | _ \<Rightarrow> Inl AttributeError)"

text \<open>\<open>XeroDataPipeline.process_credit_notes\<close>.\<close>

fun process_credit_notes_from ::
  "'f builtins \<Rightarrow> (string \<times> 'f pyval) list \<Rightarrow> column_def list \<Rightarrow> (nat \<Rightarrow> nat) \<Rightarrow> nat
     \<Rightarrow> 'f pyval list \<Rightarrow> py_error + 'f pyval list list" where
  "process_credit_notes_from b product_multipliers cols clock k [] = Inr []"
| "process_credit_notes_from b product_multipliers cols clock k (credit_note_obj # credit_notes) =
     and_then (process_credit_note b product_multipliers cols clock k credit_note_obj) (\<lambda>rows.
     and_then (process_credit_notes_from b product_multipliers cols clock (k + length rows) credit_notes)
       (\<lambda>rows'. Inr (rows @ rows')))"

definition process_credit_notes ::
  "'f builtins \<Rightarrow> (string \<times> 'f pyval) list \<Rightarrow> column_def list \<Rightarrow> (nat \<Rightarrow> nat) \<Rightarrow> 'f pyval list
     \<Rightarrow> py_error + 'f pyval list list" where
  "process_credit_notes b product_multipliers credit_notes_columns clock credit_notes =
     process_credit_notes_from b product_multipliers credit_notes_columns clock 0 credit_notes"

subsection \<open>What a column reads and changes\<close>

text \<open>
  The value of \<open>array_pos\<close> after a column: only a deep-nested column whose path
  contains \<open>*\<close> assigns it, and the assignment depends on the path alone.
\<close>

definition array_pos_after :: "column_def \<Rightarrow> array_pos \<Rightarrow> array_pos" where
  "array_pos_after col ap =
     (if \<not> auto_generate col \<and> deep_nested col \<and> truthy_opt (path_to_value col)
      then snd (snd (resolve_wildcard (the (path_to_value col)) (array_all col) ap))
      else ap)"

text \<open>The top-level keys of the record that \<open>process_record\<close> looks up for a column.\<close>

definition column_keys :: "column_def \<Rightarrow> string set" where
  "column_keys col =
     (if auto_generate col then {}
      else if deep_nested col \<and> truthy_opt (path_to_value col) then
        (let top = hd (split_on CHR ''.'' (the (path_to_value col)))
         in {if top = ''*'' then ''0'' else top})
      else if is_nested col \<and> truthy_opt (action_filter col) then {''action_values'', ''actions''}
      else if is_nested col then
        (case source_field col of None \<Rightarrow> {} | Some sf \<Rightarrow> {hd (split_on CHR ''.'' sf)})
      else (case source_field col of None \<Rightarrow> {} | Some sf \<Rightarrow> {sf}))"

text \<open>
  Whether a field value makes \<open>process_nested_response\<close> expand the record: a dict
  whose \<open>data\<close> entry is a list (line 480).
\<close>

definition holds_data_array :: "'f pyval \<Rightarrow> bool" where
  "holds_data_array v \<longleftrightarrow>
     (case v of
        PDict d \<Rightarrow> (case map_of d ''data'' of Some (PList items) \<Rightarrow> True | _ \<Rightarrow> False)
      | _ \<Rightarrow> False)"

text \<open>The top-level keys of the record that \<open>extract_record_values\<close> looks up for a column.\<close>

definition xero_column_keys :: "column_def \<Rightarrow> string set" where
  "xero_column_keys col =
     (if auto_generate col then {}
      else
        (case source_field col of
           None \<Rightarrow> {}
         | Some sf \<Rightarrow>
             if is_nested col then
               (let part = hd (split_on CHR ''.'' sf)
                in {if CHR ''['' \<in> set sf \<and> CHR '']'' \<in> set sf \<and> CHR ''['' \<in> set part \<and> CHR '']'' \<in> set part
                    then hd (split_on CHR ''['' part) else part})
             else {sf}))"

text \<open>
  What is known of the order in which \<open>list(s)\<close> lists a finite set: every element
  occurs exactly once.
\<close>

definition valid_set_order :: "(string set \<Rightarrow> string list) \<Rightarrow> bool" where
  "valid_set_order order \<longleftrightarrow> (\<forall>S. finite S \<longrightarrow> set (order S) = S \<and> distinct (order S))"

subsection \<open>Signs\<close>




section \<open>Reference readings of the specification\<close>

text \<open>
  An instance of the built-ins in which floats are exact integers, printed and parsed
  as integers. It serves to evaluate the functions on concrete records.
\<close>

definition exact_builtins :: "int builtins" where
  "exact_builtins =
     \<lparr> float_of_int = Some,
       float_of_str = (\<lambda>s. case py_int_of_str s of Inl e \<Rightarrow> None | Inr n \<Rightarrow> Some n),
       int_of_float = Inr, float_is_zero = (\<lambda>x. x = 0), float_zero = 0, float_neg = uminus,
       float_mul = (*), float_sub = (-), str_of_float = py_str_of_int,
       repr_of_str = (\<lambda>s. CHR 0x27 # s @ [CHR 0x27]), str_of_datetime = digits_of_nat,
       isoformat = digits_of_nat, py_eval = (\<lambda>s v. None) \<rparr>"


subsection \<open>Example inputs\<close>

text \<open>
  An ad account with two activities and the columns that read it, the same account
  without activities, and an invoice with two line items.
\<close>

text \<open>A network on which every request fails, and a clock that advances at every reading.\<close>

definition offline :: "int pyval \<Rightarrow> int pyval option" where
  "offline url = None"

definition ticking_clock :: "nat \<Rightarrow> nat" where
  "ticking_clock k = k"

definition example_account :: "(string \<times> int pyval) list" where
  "example_account =
     [(''account_id'', PStr ''42''),
      (''activities'', PDict [(''data'',
         PList [PDict [(''actor_name'', PStr ''ann'')], PDict [(''actor_name'', PStr ''bob'')]])])]"

definition example_columns :: "column_def list" where
  "example_columns =
     [(column ''account_id'' ''STRING'')\<lparr>source_field := Some ''account_id''\<rparr>,
      (column ''activity_actor_name'' ''STRING'')
        \<lparr>deep_nested := True, path_to_value := Some ''activities.data.*.actor_name'',
         array_all := True, join_delimiter := Some '', ''\<rparr>,
      (column ''processed_at'' ''TIMESTAMP'')\<lparr>source_field := Some ''processed_at'', auto_generate := True\<rparr>]"

definition example_invoice :: "(string \<times> int pyval) list" where
  "example_invoice =
     [(''Type'', PStr ''ACCREC''), (''InvoiceID'', PStr ''i-1''),
      (''LineItems'', PList
         [PDict [(''Description'', PStr ''Hay''), (''Quantity'', PInt 2), (''LineAmount'', PInt 30)],
          PDict [(''Description'', PStr ''Oats''), (''Quantity'', PInt 1), (''LineAmount'', PInt 12)]])]"

definition example_invoice_columns :: "column_def list" where
  "example_invoice_columns =
     [(column ''invoice_id'' ''STRING'')\<lparr>source_field := Some ''InvoiceID''\<rparr>,
      (column ''quantity'' ''FLOAT64'')\<lparr>source_field := Some ''LineItems.Quantity'', is_nested := True\<rparr>,
      (column ''processed_at'' ''TIMESTAMP'')\<lparr>auto_generate := True\<rparr>]"

definition example_flat_account :: "(string \<times> int pyval) list" where
  "example_flat_account = [(''account_id'', PStr ''42''), (''name'', PStr ''Acme'')]"

text \<open>A single direct column, and a record with two activities that the column does not read.\<close>

definition example_id_column :: column_def where
  "example_id_column = (column ''id'' ''STRING'')\<lparr>source_field := Some ''id''\<rparr>"

definition example_unread_activities :: "(string \<times> int pyval) list" where
  "example_unread_activities =
     [(''id'', PStr ''1''), (''activities'', PDict [(''data'', PList [PDict [], PDict []])])]"

text \<open>
  The specification's defaults of the destination types (section 4.3): 0 for INTEGER,
  0.0 for FLOAT, \<open>"N/A"\<close> or the empty string for STRING, false for BOOLEAN and \<open>None\<close>
  for DATE and TIMESTAMP.
\<close>

definition spec_is_type_default :: "'f builtins \<Rightarrow> string \<Rightarrow> 'f pyval \<Rightarrow> bool" where
  "spec_is_type_default b t v \<longleftrightarrow>
     (if t = ''INTEGER'' then v = PInt 0
      else if t = ''FLOAT64'' \<or> t = ''FLOAT'' then v = PFloat (float_zero b)
      else if t = ''STRING'' then v = PStr ''N/A'' \<or> v = PStr []
      else if t = ''BOOLEAN'' then v = PBool False
      else v = PNone)"

text \<open>
  The specification's reading of a wildcard path with \<open>arrayAll\<close>: the remaining path
  suffix is applied to every element of the array and the string representations of
  all the results are joined with the delimiter.
\<close>

definition spec_wildcard_join ::
  "'f builtins \<Rightarrow> string \<Rightarrow> string list \<Rightarrow> 'f pyval list \<Rightarrow> string" where
  "spec_wildcard_join b delimiter suffix xs =
     join delimiter (map (\<lambda>x. py_str b (apply_remaining suffix x)) xs)"

text \<open>The record and the column of the wildcard scenario.\<close>

definition example_items :: "(string \<times> int pyval) list" where
  "example_items =
     [(''items'', PDict [(''data'', PList [PDict [(''name'', PStr ''a'')], PDict [(''name'', PStr ''b'')]])])]"

definition example_names_column :: column_def where
  "example_names_column =
     (column ''names'' ''STRING'')
       \<lparr>deep_nested := True, path_to_value := Some ''items.data.*.name'', array_all := True,
        join_delimiter := Some '', ''\<rparr>"

text \<open>
  The values the specification takes as legal for a destination type: an integer, a
  float, a string, a boolean; for DATE and TIMESTAMP a string or a datetime.
\<close>

definition spec_legal_value :: "string \<Rightarrow> 'f pyval \<Rightarrow> bool" where
  "spec_legal_value t v \<longleftrightarrow>
     (if t = ''INTEGER'' then (case v of PInt n \<Rightarrow> True | _ \<Rightarrow> False)
      else if t = ''FLOAT64'' then (case v of PFloat x \<Rightarrow> True | _ \<Rightarrow> False)
      else if t = ''STRING'' then (case v of PStr s \<Rightarrow> True | _ \<Rightarrow> False)
      else if t = ''BOOLEAN'' then (case v of PBool c \<Rightarrow> True | _ \<Rightarrow> False)
      else if t = ''DATE'' \<or> t = ''TIMESTAMP''
      then (case v of PStr s \<Rightarrow> True | PDatetime d \<Rightarrow> True | _ \<Rightarrow> False)
      else False)"




section \<open>Properties\<close>

subsection \<open>Splitting and joining\<close>

lemma split_on_nonempty [simp]: "split_on c s \<noteq> []"
  by (induction s) (auto split: list.splits)

lemma split_on_no_sep: "p \<in> set (split_on c s) \<Longrightarrow> c \<notin> set p"
  by (induction s arbitrary: p) (auto split: list.splits if_splits)

lemma split_on_subset: "p \<in> set (split_on c s) \<Longrightarrow> set p \<subseteq> set s"
proof (induction s arbitrary: p)
  case Nil
  then show ?case by simp
next
  case (Cons x xs)
  obtain w ws where sp: "split_on c xs = w # ws" by (cases "split_on c xs") auto
  then have "set w \<subseteq> set xs" and "\<forall>q \<in> set ws. set q \<subseteq> set xs"
    using Cons.IH by auto
  with Cons.prems sp show ?case by (auto split: if_splits)
qed

lemma split_on_id: "c \<notin> set s \<Longrightarrow> split_on c s = [s]"
  by (induction s) auto

lemma split_on_append: "c \<notin> set s \<Longrightarrow> split_on c (s @ c # rest) = s # split_on c rest"
  by (induction s) (auto split: list.splits)

lemma split_on_join:
  "segs \<noteq> [] \<Longrightarrow> (\<forall>p \<in> set segs. c \<notin> set p) \<Longrightarrow> split_on c (join [c] segs) = segs"
  by (induction "[c]" segs rule: join.induct) (auto simp add: split_on_id split_on_append)

subsection \<open>Columns of \<open>process_record\<close>\<close>

lemma snd_deep_nested_value:
  "snd (deep_nested_value b record col path ap) = snd (snd (resolve_wildcard path (array_all col) ap))"
  by (auto simp add: deep_nested_value_def Let_def split: prod.splits sum.splits list.splits)

lemma snd_process_column:
  "snd (process_column b now record ap col) = array_pos_after col ap"
  by (auto simp add: process_column_def array_pos_after_def snd_deep_nested_value split: prod.splits)
     (metis snd_conv snd_deep_nested_value)+

lemma process_columns_values:
  "process_columns b now record cols ap acc = Inr row \<Longrightarrow>
     length row = length acc + length cols \<and> take (length acc) row = acc \<and>
     (\<forall>j < length cols.
        fst (process_column b now record (fold array_pos_after (take j cols) ap) (cols ! j))
          = Inr (row ! (length acc + j)))"
proof (induction cols arbitrary: ap acc)
  case Nil
  then show ?case by simp
next
  case (Cons col cols)
  obtain r ap' where pc: "process_column b now record ap col = (r, ap')" by (cases "process_column b now record ap col")
  have apeq: "ap' = array_pos_after col ap" using pc snd_process_column[of b now "record" ap col] by simp
  from Cons.prems pc obtain v where v: "r = Inr v"
    and rest: "process_columns b now record cols ap' (acc @ [v]) = Inr row"
    by (cases r) auto
  from Cons.IH[OF rest] have
    len: "length row = length (acc @ [v]) + length cols"
    and tk: "take (length (acc @ [v])) row = acc @ [v]"
    and vals: "\<forall>j < length cols.
        fst (process_column b now record (fold array_pos_after (take j cols) ap') (cols ! j))
          = Inr (row ! (length (acc @ [v]) + j))"
    by auto
  have "take (length acc) (take (length (acc @ [v])) row) = take (length acc) (acc @ [v])"
    using tk by simp
  then have t1: "take (length acc) row = acc" by simp
  have "(take (length (acc @ [v])) row) ! length acc = (acc @ [v]) ! length acc"
    using tk by simp
  then have r0: "row ! length acc = v" by simp
  show ?case
  proof (intro conjI allI impI)
    show "length row = length acc + length (col # cols)" using len by simp
    show "take (length acc) row = acc" by (rule t1)
    fix j assume j: "j < length (col # cols)"
    show "fst (process_column b now record (fold array_pos_after (take j (col # cols)) ap) ((col # cols) ! j))
          = Inr (row ! (length acc + j))"
    proof (cases j)
      case 0
      then show ?thesis using pc v r0 by simp
    next
      case (Suc j')
      with j have "j' < length cols" by simp
      with vals have "fst (process_column b now record (fold array_pos_after (take j' cols) ap') (cols ! j'))
          = Inr (row ! (length (acc @ [v]) + j'))" by simp
      then show ?thesis using Suc apeq by simp
    qed
  qed
qed


lemma first_wildcard_Some:
  "first_wildcard i segs = Some j \<Longrightarrow>
     i \<le> j \<and> j - i < length segs \<and> segs ! (j - i) = ''*'' \<and> (\<forall>k < j - i. segs ! k \<noteq> ''*'')"
proof (induction segs arbitrary: i)
  case Nil
  then show ?case by simp
next
  case (Cons seg segs)
  show ?case
  proof (cases "seg = ''*''")
    case True
    with Cons.prems show ?thesis by simp
  next
    case False
    with Cons.prems have "first_wildcard (Suc i) segs = Some j" by simp
    from Cons.IH[OF this] have ih: "Suc i \<le> j" "j - Suc i < length segs" "segs ! (j - Suc i) = ''*''"
      "\<forall>k < j - Suc i. segs ! k \<noteq> ''*''" by auto
    from ih(1) have eq: "j - i = Suc (j - Suc i)" by simp
    show ?thesis using ih False unfolding eq by (auto simp add: nth_Cons split: nat.splits)
  qed
qed

lemma resolve_wildcard_segments:
  "resolve_wildcard path aa ap = (path', aa', ap') \<Longrightarrow>
     split_on CHR ''.'' path' =
       (case first_wildcard 0 (split_on CHR ''.'' path) of
          Some i \<Rightarrow> (split_on CHR ''.'' path)[i := ''0'']
        | None \<Rightarrow> split_on CHR ''.'' path)"
proof (cases "first_wildcard 0 (split_on CHR ''.'' path)")
  case None
  then show "resolve_wildcard path aa ap = (path', aa', ap') \<Longrightarrow> ?thesis"
    by (auto simp add: resolve_wildcard_def Let_def split: if_splits)
next
  case (Some i)
  assume r: "resolve_wildcard path aa ap = (path', aa', ap')"
  from first_wildcard_Some[OF Some] have i: "i < length (split_on CHR ''.'' path)"
    and star: "split_on CHR ''.'' path ! i = ''*''" by auto
  then have "''*'' \<in> set (split_on CHR ''.'' path)" by (metis nth_mem)
  have in_path: "CHR ''*'' \<in> set path"
    using split_on_subset[OF \<open>''*'' \<in> set (split_on CHR ''.'' path)\<close>] by simp
  have "\<forall>p \<in> set ((split_on CHR ''.'' path)[i := ''0'']). CHR ''.'' \<notin> set p"
    using split_on_no_sep[of _ "CHR ''.''" path] by (auto dest!: set_update_subset_insert[THEN subsetD])
  moreover have "(split_on CHR ''.'' path)[i := ''0''] \<noteq> []" by simp
  ultimately have "split_on CHR ''.'' (join ''.'' ((split_on CHR ''.'' path)[i := ''0''])) = (split_on CHR ''.'' path)[i := ''0'']"
    using split_on_join[of "(split_on CHR ''.'' path)[i := ''0'']" "CHR ''.''"] by simp
  with r Some in_path show ?thesis by (simp add: resolve_wildcard_def Let_def)
qed


lemma navigate_first_key:
  assumes "segs \<noteq> []" and "map_of r1 (hd segs) = map_of r2 (hd segs)"
  shows "navigate aa ap i segs (PDict r1) coll apn = navigate aa ap i segs (PDict r2) coll apn"
  using assms by (cases segs) (simp_all add: Let_def)

lemma resolved_top_segment:
  assumes "resolve_wildcard path aa ap = (path', aa', ap')"
  shows "hd (split_on CHR ''.'' path') =
           (if hd (split_on CHR ''.'' path) = ''*'' then ''0'' else hd (split_on CHR ''.'' path))"
proof -
  obtain seg segs where sp: "split_on CHR ''.'' path = seg # segs"
    by (cases "split_on CHR ''.'' path") auto
  show ?thesis
  proof (cases "seg = ''*''")
    case True
    then show ?thesis using resolve_wildcard_segments[OF assms] sp by simp
  next
    case False
    show ?thesis
    proof (cases "first_wildcard (Suc 0) segs")
      case None
      then show ?thesis using resolve_wildcard_segments[OF assms] sp False by simp
    next
      case (Some j)
      from first_wildcard_Some[OF Some] obtain j' where "j = Suc j'" by (cases j) auto
      then show ?thesis using resolve_wildcard_segments[OF assms] sp False Some by simp
    qed
  qed
qed

lemma deep_nested_value_cong:
  assumes "map_of r1 k = map_of r2 k"
    and "k = (if hd (split_on CHR ''.'' path) = ''*'' then ''0'' else hd (split_on CHR ''.'' path))"
  shows "deep_nested_value b r1 col path ap = deep_nested_value b r2 col path ap"
proof -
  obtain path' aa' ap' where rw: "resolve_wildcard path (array_all col) ap = (path', aa', ap')"
    by (cases "resolve_wildcard path (array_all col) ap") auto
  have "hd (split_on CHR ''.'' path') = k" using resolved_top_segment[OF rw] assms(2) by simp
  then have "navigate aa' ap' 0 (split_on CHR ''.'' path') (PDict r1) False (- 1)
           = navigate aa' ap' 0 (split_on CHR ''.'' path') (PDict r2) False (- 1)"
    using navigate_first_key[of "split_on CHR ''.'' path'" r1 r2] assms(1) by simp
  then show ?thesis by (simp add: deep_nested_value_def rw Let_def)
qed

lemma process_column_cong:
  assumes "\<forall>k \<in> column_keys col. map_of r1 k = map_of r2 k"
  shows "process_column b now r1 ap col = process_column b now r2 ap col"
proof -
  consider (auto) "auto_generate col"
    | (deep) "\<not> auto_generate col" "deep_nested col \<and> truthy_opt (path_to_value col)"
    | (filter) "\<not> auto_generate col" "\<not> (deep_nested col \<and> truthy_opt (path_to_value col))"
        "is_nested col \<and> truthy_opt (action_filter col)"
    | (nested) "\<not> auto_generate col" "\<not> (deep_nested col \<and> truthy_opt (path_to_value col))"
        "\<not> (is_nested col \<and> truthy_opt (action_filter col))" "is_nested col"
    | (direct) "\<not> auto_generate col" "\<not> (deep_nested col \<and> truthy_opt (path_to_value col))"
        "\<not> (is_nested col \<and> truthy_opt (action_filter col))" "\<not> is_nested col"
    by blast
  then show ?thesis
  proof cases
    case auto
    then show ?thesis by (simp add: process_column_def)
  next
    case deep
    with assms have "deep_nested_value b r1 col (the (path_to_value col)) ap
        = deep_nested_value b r2 col (the (path_to_value col)) ap"
      by (intro deep_nested_value_cong[where k = "if hd (split_on CHR ''.'' (the (path_to_value col))) = ''*'' then ''0'' else hd (split_on CHR ''.'' (the (path_to_value col)))"])
         (simp_all add: column_keys_def Let_def)
    with deep show ?thesis by (simp add: process_column_def)
  next
    case filter
    with assms have "map_of r1 ''action_values'' = map_of r2 ''action_values''"
      and "map_of r1 ''actions'' = map_of r2 ''actions''"
      by (simp_all add: column_keys_def)
    then have "\<And>d. dict_get r1 ''action_values'' d = dict_get r2 ''action_values'' d"
      and "\<And>d. dict_get r1 ''actions'' d = dict_get r2 ''actions'' d"
      and "has_key r1 ''action_values'' = has_key r2 ''action_values''"
      and "has_key r1 ''actions'' = has_key r2 ''actions''"
      by (simp_all add: dict_get_def has_key_def)
    then have "action_filter_value r1 col (the (action_filter col)) = action_filter_value r2 col (the (action_filter col))"
      by (simp add: action_filter_value_def)
    with filter show ?thesis by (auto simp add: process_column_def)
  next
    case nested
    have "nested_value b r1 col = nested_value b r2 col"
    proof (cases "source_field col")
      case None
      then show ?thesis by (simp add: nested_value_def)
    next
      case (Some sf)
      with assms nested have "map_of r1 (hd (split_on CHR ''.'' sf)) = map_of r2 (hd (split_on CHR ''.'' sf))"
        by (simp add: column_keys_def)
      then have "\<And>d. dict_get r1 (hd (split_on CHR ''.'' sf)) d = dict_get r2 (hd (split_on CHR ''.'' sf)) d"
        and "has_key r1 (hd (split_on CHR ''.'' sf)) = has_key r2 (hd (split_on CHR ''.'' sf))"
        by (simp_all add: dict_get_def has_key_def)
      with Some show ?thesis
        by (auto simp add: nested_value_def split: list.splits)
    qed
    with nested show ?thesis by (auto simp add: process_column_def)
  next
    case direct
    have "direct_value b r1 col = direct_value b r2 col"
    proof (cases "source_field col")
      case None
      then show ?thesis by (simp add: direct_value_def)
    next
      case (Some sf)
      with assms direct have "map_of r1 sf = map_of r2 sf" by (simp add: column_keys_def)
      then have "\<And>d. dict_get r1 sf d = dict_get r2 sf d" by (simp add: dict_get_def)
      with Some show ?thesis by (auto simp add: direct_value_def)
    qed
    with direct show ?thesis by (auto simp add: process_column_def)
  qed
qed

lemma process_column_now:
  assumes "\<not> (auto_generate col \<and> name col = ''processed_at'')"
  shows "process_column b now1 r ap col = process_column b now2 r ap col"
  using assms by (auto simp add: process_column_def)

lemma map_of_dict_set_other: "k \<noteq> f \<Longrightarrow> map_of (dict_set r f v) k = map_of r k"
  by (simp add: dict_set_def update_conv')

subsection \<open>Integers and their decimal strings\<close>

lemma of_char_digit: "d < 10 \<Longrightarrow> (of_char (char_of (48 + d) :: char) :: nat) = 48 + d"
  by simp

lemma digits_of_nat_digits: "list_all is_digit_char (digits_of_nat n) \<and> digits_of_nat n \<noteq> []"
proof (induction n rule: digits_of_nat.induct)
  case (1 n)
  show ?case
  proof (cases "n < 10")
    case True
    then show ?thesis by (subst digits_of_nat.simps, subst digits_of_nat.simps) (simp add: is_digit_char_def of_char_digit)
  next
    case False
    have "n mod 10 < 10" by simp
    then have "is_digit_char (char_of (48 + n mod 10))" by (simp add: is_digit_char_def of_char_digit)
    with False 1 show ?thesis
      by (subst digits_of_nat.simps, subst digits_of_nat.simps) simp
  qed
qed

lemma nat_of_digits_snoc: "nat_of_digits (xs @ [c]) = 10 * nat_of_digits xs + digit_value c"
  by (simp add: nat_of_digits_def)

lemma nat_of_digits_of_nat: "nat_of_digits (digits_of_nat n) = n"
proof (induction n rule: digits_of_nat.induct)
  case (1 n)
  show ?case
  proof (cases "n < 10")
    case True
    then show ?thesis
      by (subst digits_of_nat.simps) (simp add: nat_of_digits_def digit_value_def of_char_digit)
  next
    case False
    have "n mod 10 < 10" by simp
    then have "digit_value (char_of (48 + n mod 10)) = n mod 10"
      by (simp add: digit_value_def of_char_digit)
    with False 1 show ?thesis
      by (subst digits_of_nat.simps) (simp add: nat_of_digits_snoc)
  qed
qed

lemma digit_not_space: "is_digit_char c \<Longrightarrow> \<not> is_space c"
  by (auto simp add: is_digit_char_def is_space_def Let_def)

lemma digit_not_special:
  "is_digit_char c \<Longrightarrow> c \<noteq> CHR ''-'' \<and> c \<noteq> CHR ''+'' \<and> c \<noteq> CHR ''_''"
  by (auto simp add: is_digit_char_def)

lemma strip_id:
  assumes "s \<noteq> []" "\<not> is_space (hd s)" "\<not> is_space (last s)"
  shows "strip s = s"
proof -
  have "dropWhile is_space s = s" using assms by (cases s) auto
  moreover have "dropWhile is_space (rev s) = rev s"
    using assms by (cases "rev s") (auto simp add: last_rev[symmetric] hd_rev)
  ultimately show ?thesis by (simp add: strip_def)
qed

lemma digits_body:
  assumes "list_all is_digit_char ds" "ds \<noteq> []"
  shows "valid_int_body ds" and "int_body_value ds = nat_of_digits ds"
proof -
  have no: "CHR ''_'' \<notin> set ds"
    using assms digit_not_special by (auto simp add: list_all_iff)
  then have "split_on CHR ''_'' ds = [ds]" by (rule split_on_id)
  then show "valid_int_body ds" using assms by (simp add: valid_int_body_def isdigit_def)
  have "filter (\<lambda>c. c \<noteq> CHR ''_'') ds = ds" using no by (induction ds) auto
  then show "int_body_value ds = nat_of_digits ds" by (simp add: int_body_value_def)
qed

lemma py_int_of_str_of_int: "py_int_of_str (py_str_of_int x) = Inr x"
proof -
  define ds where "ds = digits_of_nat (nat \<bar>x\<bar>)"
  have d: "list_all is_digit_char ds" "ds \<noteq> []" using digits_of_nat_digits by (simp_all add: ds_def)
  then obtain c r where cr: "ds = c # r" by (cases ds) auto
  have c: "is_digit_char c" using d cr by simp
  have l: "is_digit_char (last ds)" using d by (metis last_in_set list_all_iff)
  have v: "nat_of_digits ds = nat \<bar>x\<bar>" by (simp add: ds_def nat_of_digits_of_nat)
  show ?thesis
  proof (cases "x < 0")
    case True
    have "\<not> is_space CHR ''-''" by (simp add: is_space_def)
    moreover have "\<not> is_space (last ds)" using l by (rule digit_not_space)
    ultimately have s: "strip (CHR ''-'' # ds) = CHR ''-'' # ds"
      using d by (intro strip_id) simp_all
    from True have "py_str_of_int x = CHR ''-'' # ds" by (simp add: py_str_of_int_def ds_def)
    then show ?thesis using s digits_body[OF d] v True by (simp add: py_int_of_str_def)
  next
    case False
    have s: "strip ds = ds" using l c cr d by (intro strip_id) (auto simp add: digit_not_space)
    from False have "py_str_of_int x = ds" by (simp add: py_str_of_int_def ds_def)
    then show ?thesis using s digits_body[OF d] v False cr c digit_not_special[OF c]
      by (simp add: py_int_of_str_def)
  qed
qed

subsection \<open>Filtered nested extraction\<close>






subsection \<open>Rows and columns\<close>

lemma process_record_values:
  assumes "process_record b now cols record = Inr row"
  shows "length row = length cols"
    and "j < length cols \<Longrightarrow>
           fst (process_column b now record (fold array_pos_after (take j cols) Unbound) (cols ! j))
             = Inr (row ! j)"
  using process_columns_values[of b now "record" cols Unbound "[]" row] assms
  by (simp_all add: process_record_def)

lemma extract_record_values_columns:
  "extract_record_values now record cols = Inr vs \<Longrightarrow>
     length vs = length cols \<and> (\<forall>j < length cols. extract_column now record (cols ! j) = Inr (vs ! j))"
proof (induction cols arbitrary: vs)
  case Nil
  then show ?case by simp
next
  case (Cons col cols)
  from Cons.prems obtain v vs' where v: "extract_column now record col = Inr v"
    and vs': "extract_record_values now record cols = Inr vs'" and eq: "vs = v # vs'"
    by (auto simp add: and_then_def split: sum.splits)
  from Cons.IH[OF vs'] show ?case using v eq by (auto simp add: nth_Cons split: nat.splits)
qed

text \<open>
  Claim C9. Whenever \<open>process_record\<close> (Meta Ads) or \<open>extract_record_values\<close> (Xero)
  returns a row, the row has exactly one value per column definition, and the value at
  position \<open>j\<close> is the one that definition \<open>j\<close> produces on the record (for Meta Ads, with
  \<open>array_pos\<close> as the definitions before it leave it).
\<close>

theorem row_matches_columns:
  "(process_record b now cols record = Inr row \<longrightarrow>
      length row = length cols \<and>
      (\<forall>j < length cols.
         fst (process_column b now record (fold array_pos_after (take j cols) Unbound) (cols ! j))
           = Inr (row ! j)))
   \<and> (extract_record_values now' record' cols' = Inr vs \<longrightarrow>
      length vs = length cols' \<and>
      (\<forall>j < length cols'. extract_column now' record' (cols' ! j) = Inr (vs ! j)))"
  using process_record_values[of b now cols "record" row] extract_record_values_columns[of "now'" "record'" "cols'" vs]
  by blast

theorem row_matches_columns_witness:
  "length [PStr ''42'', PStr [], PDatetime (0::nat) :: int pyval] = length example_columns
   \<and> length [PStr ''i-1'', PNone, PDatetime (0::nat) :: int pyval] = length example_invoice_columns"
proof -
  have m: "process_record exact_builtins 0 example_columns example_flat_account
     = Inr [PStr ''42'', PStr [], PDatetime 0]" by code_simp
  have x: "extract_record_values 0 example_invoice example_invoice_columns
     = Inr [PStr ''i-1'', PNone, PDatetime 0 :: int pyval]" by code_simp
  from row_matches_columns[of exact_builtins 0 example_columns example_flat_account
      "[PStr ''42'', PStr [], PDatetime 0]" 0 example_invoice example_invoice_columns
      "[PStr ''i-1'', PNone, PDatetime 0]"] m x
  show ?thesis by simp
qed

subsection \<open>Records without nested arrays\<close>

lemma scan_fields_none:
  "\<forall>kv \<in> set record. \<not> holds_data_array (snd kv) \<Longrightarrow> scan_fields record = Inr ([], [])"
proof (induction "record")
  case Nil
  then show ?case by simp
next
  case (Cons kv later)
  obtain field_name field_value where kv: "kv = (field_name, field_value)" by (cases kv)
  from Cons.prems kv have "\<not> holds_data_array field_value" by simp
  moreover from Cons have "scan_fields later = Inr ([], [])" by simp
  ultimately show ?case unfolding kv
    by (auto simp add: holds_data_array_def split: pyval.splits option.splits)
qed

text \<open>
  Claim C2, as amended. Whether a record is expanded is decided by the record, not by
  the column definitions: a record none of whose fields holds a \<open>data\<close> array is not
  expanded, whatever the columns are. \<open>process_nested_response\<close> contributes exactly
  one row for it, the row that \<open>process_record\<close> builds from the record itself; if a
  column raises, the exception leaves the function and there is no row.
\<close>

theorem no_nested_array_one_row:
  assumes "\<forall>kv \<in> set record. \<not> holds_data_array (snd kv)"
  shows "process_nested_record b fetch session clock k cols (PDict record) =
           Some (case process_record b (clock k) cols record of
                   Inl e \<Rightarrow> Inl e
                 | Inr row \<Rightarrow> Inr [row])"
  using scan_fields_none[OF assms]
  by (simp add: process_nested_record_def split: sum.splits)

theorem no_nested_array_one_row_witness:
  "process_nested_record exact_builtins offline True ticking_clock 0 example_columns (PDict example_flat_account)
     = Some (Inr [[PStr ''42'', PStr [], PDatetime 0]])"
proof -
  have "\<forall>kv \<in> set example_flat_account. \<not> holds_data_array (snd kv)"
    by (simp add: example_flat_account_def holds_data_array_def)
  from no_nested_array_one_row[OF this, of exact_builtins offline True ticking_clock 0 example_columns]
  have "process_nested_record exact_builtins offline True ticking_clock 0 example_columns (PDict example_flat_account)
     = Some (case process_record exact_builtins 0 example_columns example_flat_account of
               Inl e \<Rightarrow> Inl e | Inr row \<Rightarrow> Inr [row])" by (simp add: ticking_clock_def)
  moreover have "process_record exact_builtins 0 example_columns example_flat_account
     = Inr [PStr ''42'', PStr [], PDatetime 0]" by code_simp
  ultimately show ?thesis by simp
qed

text \<open>
  The claim as stated fails: with a single plain column and no deep-nested one, a
  record that carries a \<open>data\<close> array of two items under a field that no column reads
  gives two rows, one per item.
\<close>

theorem no_nested_array_one_row_counterexample:
  "\<not> deep_nested example_id_column
   \<and> \<not> is_nested example_id_column
   \<and> ''activities'' \<notin> column_keys example_id_column
   \<and> process_nested_record exact_builtins offline True ticking_clock 0 [example_id_column]
         (PDict example_unread_activities)
       = Some (Inr [[PStr ''1''], [PStr ''1'']])
   \<and> length [[PStr ''1''], [PStr ''1'' :: int pyval]] \<noteq> 1"
  by (simp add: example_id_column_def column_keys_def column_def) code_simp

subsection \<open>Records with one nested array\<close>

lemma process_items_rows:
  "process_items b clock k cols record f items = Inr rows \<Longrightarrow>
     length rows = length items \<and>
     (\<forall>i < length items.
        process_record b (clock (k + i)) cols (dict_set record f (PDict [(''data'', PList [items ! i])]))
          = Inr (rows ! i))"
proof (induction items arbitrary: k rows)
  case Nil
  then show ?case by simp
next
  case (Cons item items)
  from Cons.prems obtain row rows' where
    row: "process_record b (clock k) cols (dict_set record f (PDict [(''data'', PList [item])])) = Inr row"
    and rest: "process_items b clock (Suc k) cols record f items = Inr rows'"
    and eq: "rows = row # rows'"
    by (auto split: sum.splits)
  from Cons.IH[OF rest] show ?case using row eq
    by (auto simp add: nth_Cons split: nat.splits)
qed

lemma paginate_no_urls: "paginate fetch [] processed items = Some (Inr items)"
  by (simp add: paginate.simps)

lemma single_nested_array:
  assumes "scan_fields record = Inr ([(f, items)], pags)" and "session \<longrightarrow> pags = []"
  shows "process_nested_record b fetch session clock k cols (PDict record) =
           Some (process_items b clock k cols record f items)"
  using assms
  by (auto simp add: process_nested_record_def paginate_no_urls split: sum.splits)

lemma replicated_value:
  assumes row: "process_record b now cols (dict_set record f v) = Inr row"
    and j: "j < length cols" and key: "f \<notin> column_keys (cols ! j)"
    and stamp: "\<not> (auto_generate (cols ! j) \<and> name (cols ! j) = ''processed_at'')"
  shows "Inr (row ! j) =
           fst (process_column b now' record (fold array_pos_after (take j cols) Unbound) (cols ! j))"
proof -
  have "\<forall>k \<in> column_keys (cols ! j). map_of (dict_set record f v) k = map_of record k"
    using key by (metis map_of_dict_set_other)
  then have "process_column b now (dict_set record f v) (fold array_pos_after (take j cols) Unbound) (cols ! j)
      = process_column b now record (fold array_pos_after (take j cols) Unbound) (cols ! j)"
    by (rule process_column_cong)
  also have "\<dots> = process_column b now' record (fold array_pos_after (take j cols) Unbound) (cols ! j)"
    using stamp by (rule process_column_now)
  finally show ?thesis using process_record_values(2)[OF row j] by simp
qed

lemma extract_nested_value_cong:
  assumes "map_of r1 k = map_of r2 k"
    and "k = (let part = hd (split_on CHR ''.'' sf)
              in if CHR ''['' \<in> set sf \<and> CHR '']'' \<in> set sf \<and> CHR ''['' \<in> set part \<and> CHR '']'' \<in> set part
                 then hd (split_on CHR ''['' part) else part)"
  shows "extract_nested_value r1 sf = extract_nested_value r2 sf"
proof -
  obtain part parts where sp: "split_on CHR ''.'' sf = part # parts"
    by (cases "split_on CHR ''.'' sf") auto
  have "nested_part (CHR ''['' \<in> set sf \<and> CHR '']'' \<in> set sf) part (PDict r1)
      = nested_part (CHR ''['' \<in> set sf \<and> CHR '']'' \<in> set sf) part (PDict r2)"
    using assms sp by (auto simp add: nested_part_def Let_def split: sum.splits)
  then show ?thesis by (simp add: extract_nested_value_def sp)
qed

lemma extract_column_cong:
  assumes "\<forall>k \<in> xero_column_keys col. map_of r1 k = map_of r2 k"
    and "\<not> (auto_generate col \<and> name col = ''processed_at'')"
  shows "extract_column now1 r1 col = extract_column now2 r2 col"
proof (cases "auto_generate col")
  case True
  with assms(2) show ?thesis by (simp add: extract_column_def)
next
  case False
  show ?thesis
  proof (cases "source_field col")
    case None
    with False show ?thesis by (simp add: extract_column_def)
  next
    case (Some sf)
    show ?thesis
    proof (cases "is_nested col")
      case True
      with assms(1) False Some have "extract_nested_value r1 sf = extract_nested_value r2 sf"
        by (intro extract_nested_value_cong) (simp_all add: xero_column_keys_def Let_def)
      with True False Some show ?thesis by (simp add: extract_column_def)
    next
      case nn: False
      with assms(1) False Some have "map_of r1 sf = map_of r2 sf" by (simp add: xero_column_keys_def)
      with nn False Some show ?thesis by (simp add: extract_column_def dict_get_def)
    qed
  qed
qed

lemma invoice_line_record_shape:
  "invoice_line_record b pm invoice base line_item = Inr r \<Longrightarrow> \<exists>li. r = dict_set base ''LineItems'' li"
  by (auto simp add: invoice_line_record_def and_then_def split: sum.splits)

lemma invoice_lines_rows:
  "invoice_lines b pm cols clock k invoice base items = Inr rows \<Longrightarrow>
     length rows = length items \<and>
     (\<forall>i < length items. \<exists>li.
        extract_record_values (clock (k + i)) (dict_set base ''LineItems'' li) cols = Inr (rows ! i))"
proof (induction items arbitrary: k rows)
  case Nil
  then show ?case by simp
next
  case (Cons item items)
  from Cons.prems obtain r row rows' where
    r: "invoice_line_record b pm invoice base item = Inr r"
    and row: "extract_record_values (clock k) r cols = Inr row"
    and rest: "invoice_lines b pm cols clock (Suc k) invoice base items = Inr rows'"
    and eq: "rows = row # rows'"
    by (auto simp add: and_then_def split: sum.splits)
  from invoice_line_record_shape[OF r] obtain li where li: "r = dict_set base ''LineItems'' li" by blast
  from Cons.IH[OF rest] have len: "length rows' = length items"
    and ih: "\<forall>i < length items. \<exists>li.
        extract_record_values (clock (Suc k + i)) (dict_set base ''LineItems'' li) cols = Inr (rows' ! i)"
    by auto
  show ?case
  proof (intro conjI allI impI)
    show "length rows = length (item # items)" using len eq by simp
    fix i assume "i < length (item # items)"
    then show "\<exists>li. extract_record_values (clock (k + i)) (dict_set base ''LineItems'' li) cols = Inr (rows ! i)"
      using row li ih eq by (cases i) auto
  qed
qed

lemma xero_replicated_value:
  assumes row: "extract_record_values now (dict_set base ''LineItems'' li) cols = Inr row"
    and j: "j < length cols" and key: "''LineItems'' \<notin> xero_column_keys (cols ! j)"
    and stamp: "\<not> (auto_generate (cols ! j) \<and> name (cols ! j) = ''processed_at'')"
  shows "Inr (row ! j) = extract_column now' base (cols ! j)"
proof -
  have "\<forall>k \<in> xero_column_keys (cols ! j). map_of (dict_set base ''LineItems'' li) k = map_of base k"
    using key by (metis map_of_dict_set_other)
  then have "extract_column now (dict_set base ''LineItems'' li) (cols ! j) = extract_column now' base (cols ! j)"
    using stamp by (rule extract_column_cong)
  then show ?thesis using extract_record_values_columns[OF row] j by simp
qed

text \<open>
  Claim C1, as amended. Meta Ads: a record with exactly one field \<open>f\<close> that holds a \<open>data\<close>
  array of \<open>N\<close> items, with no further page to fetch for it, is turned into one call of
  \<open>process_record\<close> per item; when no column raises there are exactly \<open>N\<close> rows, and every
  column that does not read \<open>f\<close> and is not the auto-generated \<open>processed_at\<close> has the
  same value in all of them. Xero: an invoice whose \<open>LineItems\<close> is a list of \<open>N\<close> items
  gives, when it is processed without an exception, exactly \<open>N\<close> rows, and every column
  that does not read \<open>LineItems\<close> and is not the auto-generated \<open>processed_at\<close> has the
  same value in all of them.
\<close>

theorem exploded_rows:
  "(scan_fields record = Inr ([(f, items)], pags) \<and> (session \<longrightarrow> pags = []) \<longrightarrow>
      process_nested_record b fetch session clock k cols (PDict record)
        = Some (process_items b clock k cols record f items)
      \<and> (\<forall>rows. process_items b clock k cols record f items = Inr rows \<longrightarrow>
            length rows = length items \<and>
            (\<forall>i < length items. \<forall>i' < length items. \<forall>j < length cols.
               f \<notin> column_keys (cols ! j)
                 \<and> \<not> (auto_generate (cols ! j) \<and> name (cols ! j) = ''processed_at'')
               \<longrightarrow> rows ! i ! j = rows ! i' ! j)))
   \<and> (dict_get invoice ''LineItems'' (PList []) = PList line_items
        \<and> process_invoice b pm xcols xclock n (PDict invoice) = Inr xrows \<longrightarrow>
      length xrows = length line_items \<and>
      (\<forall>i < length line_items. \<forall>i' < length line_items. \<forall>j < length xcols.
         ''LineItems'' \<notin> xero_column_keys (xcols ! j)
           \<and> \<not> (auto_generate (xcols ! j) \<and> name (xcols ! j) = ''processed_at'')
         \<longrightarrow> xrows ! i ! j = xrows ! i' ! j))"
proof (intro conjI impI)
  assume h: "scan_fields record = Inr ([(f, items)], pags) \<and> (session \<longrightarrow> pags = [])"
  then show "process_nested_record b fetch session clock k cols (PDict record)
        = Some (process_items b clock k cols record f items)"
    by (intro single_nested_array) auto
  show "\<forall>rows. process_items b clock k cols record f items = Inr rows \<longrightarrow>
            length rows = length items \<and>
            (\<forall>i < length items. \<forall>i' < length items. \<forall>j < length cols.
               f \<notin> column_keys (cols ! j)
                 \<and> \<not> (auto_generate (cols ! j) \<and> name (cols ! j) = ''processed_at'')
               \<longrightarrow> rows ! i ! j = rows ! i' ! j)"
  proof (intro allI impI conjI)
    fix rows assume rows: "process_items b clock k cols record f items = Inr rows"
    from process_items_rows[OF rows] show "length rows = length items" by simp
    fix i i' j
    assume i: "i < length items" and i': "i' < length items" and j: "j < length cols"
      and c: "f \<notin> column_keys (cols ! j)
                 \<and> \<not> (auto_generate (cols ! j) \<and> name (cols ! j) = ''processed_at'')"
    from process_items_rows[OF rows] i i' have
      r1: "process_record b (clock (k + i)) cols (dict_set record f (PDict [(''data'', PList [items ! i])])) = Inr (rows ! i)"
      and r2: "process_record b (clock (k + i')) cols (dict_set record f (PDict [(''data'', PList [items ! i'])])) = Inr (rows ! i')"
      by auto
    from c have c1: "f \<notin> column_keys (cols ! j)"
      and c2: "\<not> (auto_generate (cols ! j) \<and> name (cols ! j) = ''processed_at'')" by auto
    have "(Inr (rows ! i ! j) :: py_error + 'a pyval) = Inr (rows ! i' ! j)"
      using replicated_value[OF r1 j c1 c2, of 0] replicated_value[OF r2 j c1 c2, of 0] by simp
    then show "rows ! i ! j = rows ! i' ! j" by simp
  qed
next
  assume h: "dict_get invoice ''LineItems'' (PList []) = PList line_items
        \<and> process_invoice b pm xcols xclock n (PDict invoice) = Inr xrows"
  then obtain base where
    lines: "invoice_lines b pm xcols xclock n invoice base line_items = Inr xrows"
    by (auto simp add: process_invoice_def and_then_def py_iter_def split: sum.splits)
  from invoice_lines_rows[OF lines] show "length xrows = length line_items" by simp
  show "\<forall>i < length line_items. \<forall>i' < length line_items. \<forall>j < length xcols.
         ''LineItems'' \<notin> xero_column_keys (xcols ! j)
           \<and> \<not> (auto_generate (xcols ! j) \<and> name (xcols ! j) = ''processed_at'')
         \<longrightarrow> xrows ! i ! j = xrows ! i' ! j"
  proof (intro allI impI)
    fix i i' j
    assume i: "i < length line_items" and i': "i' < length line_items" and j: "j < length xcols"
      and c: "''LineItems'' \<notin> xero_column_keys (xcols ! j)
           \<and> \<not> (auto_generate (xcols ! j) \<and> name (xcols ! j) = ''processed_at'')"
    from invoice_lines_rows[OF lines] i i' obtain li li' where
      r1: "extract_record_values (xclock (n + i)) (dict_set base ''LineItems'' li) xcols = Inr (xrows ! i)"
      and r2: "extract_record_values (xclock (n + i')) (dict_set base ''LineItems'' li') xcols = Inr (xrows ! i')"
      by blast
    from c have c1: "''LineItems'' \<notin> xero_column_keys (xcols ! j)"
      and c2: "\<not> (auto_generate (xcols ! j) \<and> name (xcols ! j) = ''processed_at'')" by auto
    have "(Inr (xrows ! i ! j) :: py_error + 'a pyval) = Inr (xrows ! i' ! j)"
      using xero_replicated_value[OF r1 j c1 c2, of 0] xero_replicated_value[OF r2 j c1 c2, of 0] by simp
    then show "xrows ! i ! j = xrows ! i' ! j" by simp
  qed
qed

lemma example_account_scan:
  "scan_fields example_account =
     Inr ([(''activities'', [PDict [(''actor_name'', PStr ''ann'')], PDict [(''actor_name'', PStr ''bob'')]])], [])"
  by (simp add: example_account_def has_key_def)

lemma example_account_rows:
  "process_items exact_builtins ticking_clock 0 example_columns example_account ''activities''
     [PDict [(''actor_name'', PStr ''ann'')], PDict [(''actor_name'', PStr ''bob'')]]
   = Inr [[PStr ''42'', PStr ''ann'', PDatetime 0], [PStr ''42'', PStr ''bob'', PDatetime 1]]"
  by code_simp

lemma example_invoice_rows:
  "process_invoice exact_builtins [] example_invoice_columns ticking_clock 0 (PDict example_invoice)
   = Inr [[PStr ''i-1'', PInt 2, PDatetime 0], [PStr ''i-1'', PInt 1, PDatetime 1]]"
  by code_simp

lemma example_keys:
  "''activities'' \<notin> column_keys (example_columns ! 0)"
  "''LineItems'' \<notin> xero_column_keys (example_invoice_columns ! 0)"
  by (simp_all add: example_columns_def example_invoice_columns_def column_keys_def xero_column_keys_def column_def)

theorem exploded_rows_witness:
  "process_nested_record exact_builtins offline True ticking_clock 0 example_columns (PDict example_account)
     = Some (Inr [[PStr ''42'', PStr ''ann'', PDatetime 0], [PStr ''42'', PStr ''bob'', PDatetime 1]])
   \<and> [PStr ''42'', PStr ''ann'', PDatetime (0::nat)] ! 0 = [PStr ''42'', PStr ''bob'', PDatetime 1 :: int pyval] ! 0
   \<and> [PStr ''i-1'', PInt 2, PDatetime (0::nat)] ! 0 = [PStr ''i-1'', PInt 1, PDatetime 1 :: int pyval] ! 0"
  using exploded_rows[of example_account "''activities''"
      "[PDict [(''actor_name'', PStr ''ann'')], PDict [(''actor_name'', PStr ''bob'')]]" "[]" True
      exact_builtins offline ticking_clock 0 example_columns example_invoice
      "[PDict [(''Description'', PStr ''Hay''), (''Quantity'', PInt 2), (''LineAmount'', PInt 30)],
        PDict [(''Description'', PStr ''Oats''), (''Quantity'', PInt 1), (''LineAmount'', PInt 12)]]"
      "[]" example_invoice_columns ticking_clock 0
      "[[PStr ''i-1'', PInt 2, PDatetime 0], [PStr ''i-1'', PInt 1, PDatetime 1]]"]
    example_account_scan example_account_rows example_invoice_rows example_keys
  by (simp add: dict_get_def example_invoice_def)

text \<open>
  The claim as stated fails for the \<open>processed_at\<close> column: it does not read the exploded
  field, but each row is stamped by its own call of \<open>datetime.now()\<close>, so its value
  differs between the rows of one record as soon as the clock advances.
\<close>

theorem exploded_rows_counterexample:
  "process_nested_record exact_builtins offline True ticking_clock 0 example_columns (PDict example_account)
     = Some (Inr [[PStr ''42'', PStr ''ann'', PDatetime 0], [PStr ''42'', PStr ''bob'', PDatetime 1]])
   \<and> ''activities'' \<notin> column_keys (example_columns ! 2)
   \<and> [PStr ''42'', PStr ''ann'', PDatetime (0::nat)] ! 2 \<noteq> [PStr ''42'', PStr ''bob'', PDatetime 1 :: int pyval] ! 2"
  by (simp add: example_columns_def column_keys_def column_def) code_simp

subsection \<open>Missing paths\<close>

text \<open>
  Claim C5, as amended. Google Ads: when a part of the (camel-cased) source path is not
  found in the result, \<open>_extract_value_from_result\<close> returns the default of the declared
  type: 0 for INTEGER, 0.0 for FLOAT64, \<open>"N/A"\<close> for STRING, \<open>False\<close> for BOOLEAN, \<open>None\<close>
  for DATE and TIMESTAMP. Meta Ads: a direct column whose source field is not a key of
  the record gets the empty string, whatever its declared type. Neither raises.
\<close>

theorem missing_path_default:
  "(truthy_opt src \<and>
      walk_result (map convert_snake_to_camel (split_on CHR ''.'' (the src))) (PDict result) = None \<longrightarrow>
      extract_value_from_result b result src col_config = get_default_value b (col_type col_config)
      \<and> get_default_value b ''INTEGER'' = PInt 0
      \<and> get_default_value b ''FLOAT64'' = PFloat (float_zero b)
      \<and> get_default_value b ''STRING'' = PStr ''N/A''
      \<and> get_default_value b ''BOOLEAN'' = PBool False
      \<and> get_default_value b ''DATE'' = PNone
      \<and> get_default_value b ''TIMESTAMP'' = PNone)
   \<and> (\<not> auto_generate col \<and> \<not> (deep_nested col \<and> truthy_opt (path_to_value col)) \<and> \<not> is_nested col
        \<and> source_field col = Some sf \<and> \<not> has_key record sf \<longrightarrow>
      process_column b now record ap col = (Inr (PStr []), ap))"
  by (auto simp add: extract_value_from_result_def get_default_value_def process_column_def
      direct_value_def dict_get_def has_key_def)

theorem missing_path_default_witness:
  "extract_value_from_result exact_builtins [(''metrics'', PDict [(''clicks'', PStr ''3'')])]
       (Some ''metrics.cost_micros'')
       ((column ''cost'' ''INTEGER'')\<lparr>source_field := Some ''metrics.cost_micros''\<rparr>) = PInt 0
   \<and> process_column exact_builtins 0 [(''clicks'', PStr ''3'')] Unbound
       ((column ''impressions'' ''INTEGER'')\<lparr>source_field := Some ''impressions''\<rparr>)
     = (Inr (PStr []), Unbound)"
proof -
  have w: "walk_result (map convert_snake_to_camel (split_on CHR ''.'' (the (Some ''metrics.cost_micros''))))
             (PDict [(''metrics'', PDict [(''clicks'', PStr ''3'')])]) = (None :: int pyval option)"
    by code_simp
  show ?thesis
    using missing_path_default[of "Some ''metrics.cost_micros''"
        "[(''metrics'', PDict [(''clicks'', PStr ''3'')])]" exact_builtins
        "(column ''cost'' ''INTEGER'')\<lparr>source_field := Some ''metrics.cost_micros''\<rparr>"
        "(column ''impressions'' ''INTEGER'')\<lparr>source_field := Some ''impressions''\<rparr>"
        "''impressions''" "[(''clicks'', PStr ''3'')]" 0 Unbound] w
    by (simp add: truthy_opt_def column_def has_key_def)
qed

text \<open>
  The claim as stated fails in the Meta Ads extractor: a missing INTEGER field yields
  the empty string, not the default 0 of the type.
\<close>

theorem missing_path_default_counterexample:
  "process_record exact_builtins 0
     [(column ''impressions'' ''INTEGER'')\<lparr>source_field := Some ''impressions''\<rparr>]
     [(''clicks'', PStr ''3'')] = Inr [PStr []]
   \<and> \<not> spec_is_type_default exact_builtins ''INTEGER'' (PStr [])"
  by (simp add: spec_is_type_default_def) code_simp

subsection \<open>Wildcard paths\<close>

lemma first_wildcard_prefix:
  "''*'' \<notin> set pre \<Longrightarrow> first_wildcard i (pre @ ''*'' # suf) = Some (i + length pre)"
  by (induction pre arbitrary: i) auto

lemma isdigit_zero: "isdigit ''0''"
  by (simp add: isdigit_def is_digit_char_def)

lemma navigate_to_wildcard:
  "apply_remaining pre cur = PList xs \<Longrightarrow>
     navigate True (Pos (i + length pre)) i (pre @ ''0'' # suf) cur False apn
       = Inr (PList xs, True, int (i + length pre))"
proof (induction pre arbitrary: i cur)
  case Nil
  then show ?case by (simp add: isdigit_zero)
next
  case (Cons seg pre)
  show ?case
  proof (cases cur)
    case (PDict d)
    with Cons.prems obtain v where v: "map_of d seg = Some v" and rest: "apply_remaining pre v = PList xs"
      by (auto split: option.splits)
    from Cons.IH[OF rest, of "Suc i"] have ih:
      "navigate True (Pos (Suc i + length pre)) (Suc i) (pre @ ''0'' # suf) v False apn
         = Inr (PList xs, True, int (Suc i + length pre))" .
    show ?thesis
    proof (cases "pre = []")
      case True
      with rest have "v = PList xs" by simp
      with PDict v True show ?thesis by (simp add: Let_def isdigit_zero)
    next
      case False
      then have "length pre \<noteq> 0" by simp
      with PDict v ih show ?thesis by (simp add: Let_def)
    qed
  next
    case (PList ys)
    with Cons.prems have dg: "isdigit seg" and lt: "nat_of_digits seg < length ys"
      and rest: "apply_remaining pre (ys ! nat_of_digits seg) = PList xs"
      by (auto split: if_splits)
    from Cons.IH[OF rest, of "Suc i"] PList dg lt show ?thesis by (simp add: Let_def)
  qed (use Cons.prems in simp_all)
qed


lemma resolve_wildcard_prefix:
  assumes sp: "split_on CHR ''.'' path = pre @ ''*'' # suf" and pre: "''*'' \<notin> set pre"
  shows "\<exists>path'. resolve_wildcard path aa ap = (path', True, Pos (length pre))
           \<and> split_on CHR ''.'' path' = pre @ ''0'' # suf"
proof -
  have "''*'' \<in> set (split_on CHR ''.'' path)" using sp by simp
  from split_on_subset[OF this] have star: "CHR ''*'' \<in> set path" by simp
  have fw: "first_wildcard 0 (split_on CHR ''.'' path) = Some (length pre)"
    using first_wildcard_prefix[OF pre, of 0 suf] sp by simp
  obtain path' aa' ap' where r: "resolve_wildcard path aa ap = (path', aa', ap')"
    by (cases "resolve_wildcard path aa ap") auto
  from resolve_wildcard_segments[OF r] fw sp have "split_on CHR ''.'' path' = pre @ ''0'' # suf"
    by simp
  moreover from r star fw have "aa' = True" "ap' = Pos (length pre)"
    by (auto simp add: resolve_wildcard_def Let_def)
  ultimately show ?thesis using r by simp
qed

text \<open>
  Claim C7, as amended. For a deep-nested column whose \<open>path_to_value\<close> has the segments
  \<open>pre\<close>, \<open>*\<close>, \<open>suf\<close> (the first wildcard after \<open>pre\<close>), on a record in which \<open>pre\<close>
  leads to a list, the column is the join, with \<open>join_delimiter\<close> (a comma when absent),
  of the strings of the values that \<open>suf\<close> gives on the elements of the list; an element
  on which a segment of \<open>suf\<close> is missing contributes the empty string, and an element on
  which \<open>suf\<close> gives \<open>None\<close> is left out. The wildcard forces \<open>array_all\<close>.
\<close>

theorem wildcard_join:
  assumes col: "\<not> auto_generate col" "deep_nested col" "path_to_value col = Some path"
    and sp: "split_on CHR ''.'' path = pre @ ''*'' # suf" and pre: "''*'' \<notin> set pre"
    and arr: "apply_remaining pre (PDict record) = PList xs"
  shows "fst (process_column b now record ap col) =
           Inr (PStr (join (case join_delimiter col of None \<Rightarrow> '','' | Some d \<Rightarrow> d)
                  (map (py_str b) (filter (\<lambda>v. v \<noteq> PNone) (map (apply_remaining suf) xs)))))"
proof -
  have ne: "path \<noteq> []"
  proof
    assume "path = []"
    with sp have "[[]] = pre @ ''*'' # suf" by simp
    then show False by (cases pre) auto
  qed
  from resolve_wildcard_prefix[OF sp pre, of "array_all col" ap] obtain path' where
    r: "resolve_wildcard path (array_all col) ap = (path', True, Pos (length pre))"
    and segs: "split_on CHR ''.'' path' = pre @ ''0'' # suf" by blast
  have nav: "navigate True (Pos (length pre)) 0 (pre @ ''0'' # suf) (PDict record) False (- 1)
               = Inr (PList xs, True, int (length pre))"
    using navigate_to_wildcard[OF arr, of 0 suf "- 1"] by simp
  have n1: "nat (int (length pre) + 1) = Suc (length pre)" by simp
  have "deep_nested_value b record col path ap =
          (PStr (join (case join_delimiter col of None \<Rightarrow> '','' | Some d \<Rightarrow> d)
                  (collect_array_values b suf xs)), Pos (length pre))"
    by (simp add: deep_nested_value_def r segs Let_def nav n1 split: list.splits)
  with col ne show ?thesis
    by (simp add: process_column_def truthy_opt_def collect_array_values_def)
qed

text \<open>
  The scenario of the claim: the path \<open>items.data.*.name\<close> with the delimiter \<open>", "\<close>
  yields \<open>"a, b"\<close>.
\<close>

theorem wildcard_join_witness:
  "fst (process_column exact_builtins 0 example_items Unbound example_names_column)
     = Inr (PStr ''a, b'')"
proof -
  have sp: "split_on CHR ''.'' ''items.data.*.name'' = [''items'', ''data''] @ ''*'' # [''name'']"
    by simp
  have arr: "apply_remaining [''items'', ''data''] (PDict example_items)
      = PList [PDict [(''name'', PStr ''a'')], PDict [(''name'', PStr ''b'')]]"
    by (simp add: example_items_def)
  from wildcard_join[of example_names_column "''items.data.*.name''" "[''items'', ''data'']"
      "[''name'']" example_items _ exact_builtins 0 Unbound, OF _ _ _ sp _ arr]
  show ?thesis by (simp add: example_names_column_def column_def py_str_def)
qed

text \<open>
  The claim as stated fails on an element whose value is \<open>None\<close>: the code leaves it
  out, while joining the string representation of every element would list it.
\<close>

theorem wildcard_join_counterexample:
  "process_record exact_builtins 0 [example_names_column]
     [(''items'', PDict [(''data'', PList [PDict [(''name'', PNone)], PDict [(''name'', PStr ''b'')]])])]
     = Inr [PStr ''b'']
   \<and> spec_wildcard_join exact_builtins '', '' [''name'']
         [PDict [(''name'', PNone)], PDict [(''name'', PStr ''b'')]] = ''None, b''"
  by code_simp

subsection \<open>Type conversion\<close>

text \<open>
  Claim C4, as amended. \<open>_convert_value_based_on_type\<close> is total: every exception of a
  conversion is caught, so it always returns a value. On \<open>None\<close> it returns the default
  of the type. For INTEGER, FLOAT64, STRING and BOOLEAN the result is always a value of
  that type, and a failed conversion to INTEGER or FLOAT64 gives the default 0 or 0.0.
  For every other type name (DATE, TIMESTAMP, also FLOAT) a value other than \<open>None\<close> is
  passed through unchanged, whatever it is, except that TIMESTAMP renders a datetime in
  ISO format.
\<close>

theorem conversion_total:
  "(v = PNone \<longrightarrow> convert_value_based_on_type b v t = get_default_value b t)
   \<and> (t = ''INTEGER'' \<or> t = ''FLOAT64'' \<or> t = ''STRING'' \<or> t = ''BOOLEAN'' \<longrightarrow>
        spec_legal_value t (convert_value_based_on_type b v t))
   \<and> (t = ''INTEGER'' \<and> py_int b v = Inl e \<longrightarrow> convert_value_based_on_type b v t = PInt 0)
   \<and> (t = ''FLOAT64'' \<and> py_float b v = Inl e \<longrightarrow>
        convert_value_based_on_type b v t = PFloat (float_zero b))
   \<and> (v \<noteq> PNone \<and> t \<noteq> ''INTEGER'' \<and> t \<noteq> ''FLOAT64'' \<and> t \<noteq> ''STRING'' \<and> t \<noteq> ''BOOLEAN'' \<longrightarrow>
        convert_value_based_on_type b v t =
          (if t = ''TIMESTAMP'' then (case v of PDatetime d \<Rightarrow> PStr (isoformat b d) | _ \<Rightarrow> v) else v))"
  by (auto simp add: convert_value_based_on_type_def get_default_value_def spec_legal_value_def
      split: sum.splits)

theorem conversion_total_witness:
  "convert_value_based_on_type exact_builtins PNone ''BOOLEAN'' = PBool False
   \<and> spec_legal_value ''INTEGER'' (convert_value_based_on_type exact_builtins (PStr ''12'') ''INTEGER'')
   \<and> convert_value_based_on_type exact_builtins (PStr ''abc'') ''INTEGER'' = PInt 0
   \<and> convert_value_based_on_type exact_builtins (PList []) ''FLOAT64'' = PFloat 0
   \<and> convert_value_based_on_type exact_builtins (PStr ''2024-01-01'') ''DATE'' = PStr ''2024-01-01''"
proof -
  have i: "py_int exact_builtins (PStr ''abc'') = Inl ValueError" by code_simp
  have f: "py_float exact_builtins (PList []) = Inl TypeError" by simp
  show ?thesis
    using conversion_total[of PNone exact_builtins "''BOOLEAN''"]
      conversion_total[of "PStr ''12''" exact_builtins "''INTEGER''"]
      conversion_total[of "PStr ''abc''" exact_builtins "''INTEGER''" ValueError]
      conversion_total[of "PList []" exact_builtins "''FLOAT64''" TypeError]
      conversion_total[of "PStr ''2024-01-01''" exact_builtins "''DATE''"] i f
    by (simp add: get_default_value_def exact_builtins_def)
qed

text \<open>
  The claim as stated fails for DATE: an object is passed through, which is neither a
  date nor the default \<open>None\<close>.
\<close>

theorem conversion_total_counterexample:
  "convert_value_based_on_type exact_builtins (PDict [(''year'', PInt 2024)]) ''DATE''
     = PDict [(''year'', PInt 2024)]
   \<and> \<not> spec_legal_value ''DATE'' (PDict [(''year'', PInt 2024)] :: int pyval)
   \<and> PDict [(''year'', PInt 2024)] \<noteq> get_default_value exact_builtins ''DATE''"
  by (simp add: convert_value_based_on_type_def spec_legal_value_def get_default_value_def)

text \<open>
  Claim C3, as amended. Converting to STRING and back gives the value again for every
  64-bit integer, for the boolean \<open>True\<close>, and for every float that Python's \<open>float\<close>
  reads back from its own \<open>str\<close>.
\<close>

theorem round_trip:
  "(- (2 ^ 63) \<le> x \<and> x < 2 ^ 63 \<longrightarrow>
      convert_value_based_on_type b (convert_value_based_on_type b (PInt x) ''STRING'') ''INTEGER''
        = PInt x)
   \<and> convert_value_based_on_type b (convert_value_based_on_type b (PBool True) ''STRING'') ''BOOLEAN''
        = PBool True
   \<and> (float_of_str b (str_of_float b y) = Some y \<longrightarrow>
      convert_value_based_on_type b (convert_value_based_on_type b (PFloat y) ''STRING'') ''FLOAT64''
        = PFloat y)"
  by (simp add: convert_value_based_on_type_def py_str_def py_int_of_str_of_int)

theorem round_trip_witness:
  "convert_value_based_on_type exact_builtins
     (convert_value_based_on_type exact_builtins (PInt (- 1203)) ''STRING'') ''INTEGER'' = PInt (- 1203)
   \<and> convert_value_based_on_type exact_builtins
     (convert_value_based_on_type exact_builtins (PFloat 7) ''STRING'') ''FLOAT64'' = PFloat 7"
proof -
  have "float_of_str exact_builtins (str_of_float exact_builtins 7) = Some 7"
    by (simp add: exact_builtins_def py_int_of_str_of_int)
  with round_trip[of "- 1203" exact_builtins 7] show ?thesis by simp
qed

text \<open>
  The claim as stated fails for the boolean \<open>False\<close>: its string \<open>"False"\<close> is not
  empty, hence true.
\<close>

theorem round_trip_counterexample:
  "convert_value_based_on_type exact_builtins
     (convert_value_based_on_type exact_builtins (PBool False) ''STRING'') ''BOOLEAN'' = PBool True
   \<and> convert_value_based_on_type exact_builtins
     (convert_value_based_on_type exact_builtins (PBool False) ''STRING'') ''BOOLEAN'' \<noteq> PBool False"
  by (simp add: convert_value_based_on_type_def py_str_def)

subsection \<open>Query builders\<close>

lemma api_fields_step_finite:
  "finite (fst st) \<Longrightarrow> finite (fst (api_fields_step col st))"
  by (cases st) (auto simp add: api_fields_step_def Let_def)

lemma api_fields_finite:
  "finite (fst st) \<Longrightarrow> finite (fst (fold api_fields_step cols st))"
  by (induction cols arbitrary: st) (auto simp add: api_fields_step_finite)

lemma nested_fields_step_mset:
  "mset xs = mset ys \<Longrightarrow> mset (nested_fields_step entry xs) = mset (nested_fields_step entry ys)"
proof -
  assume eq: "mset xs = mset ys"
  then have "set xs = set ys" by (rule mset_eq_setD)
  with eq show ?thesis by (cases entry) (simp add: nested_fields_step_def)
qed

lemma nested_fields_fold_mset:
  "mset xs = mset ys \<Longrightarrow>
     mset (fold nested_fields_step entries xs) = mset (fold nested_fields_step entries ys)"
proof (induction entries arbitrary: xs ys)
  case Nil
  then show ?case by simp
next
  case (Cons entry entries)
  from Cons.prems have "mset (nested_fields_step entry xs) = mset (nested_fields_step entry ys)"
    by (rule nested_fields_step_mset)
  from Cons.IH[OF this] show ?case by simp
qed

lemma sort_mset_cong:
  assumes "mset xs = mset ys"
  shows "sort xs = sort (ys :: string list)"
proof (rule properties_for_sort)
  show "mset (sort ys) = mset xs" using assms by (simp only: mset_sort)
  show "sorted (sort ys)" by (rule sorted_sort)
qed

text \<open>
  Claim C8. \<open>generate_api_query\<close> (Google Ads) reads the column configuration, the
  configured period and dates and its argument, and nothing else: no clock, no random
  source, no unordered collection; it is the function \<open>generate_api_query\<close> above, so
  equal inputs give the same query text. \<open>_generate_api_fields\<close> (Meta Ads) builds a
  \<open>set\<close> and lists it, in an order that may change from one run of the interpreter to
  the next; its result does not depend on that order, because the list is sorted before
  it is joined.
\<close>

theorem api_fields_deterministic:
  assumes "valid_set_order order1" and "valid_set_order order2"
  shows "generate_api_fields order1 column_definitions = generate_api_fields order2 column_definitions"
proof -
  obtain api_fields nested_fields where
    st: "fold api_fields_step column_definitions ({}, []) = (api_fields, nested_fields)"
    by (cases "fold api_fields_step column_definitions ({}, [])")
  have "finite api_fields" using api_fields_finite[of "({}, [])" column_definitions] st by simp
  then have fin: "finite {field \<in> api_fields. field \<noteq> []}" by simp
  with assms have "set (order1 {field \<in> api_fields. field \<noteq> []}) = set (order2 {field \<in> api_fields. field \<noteq> []})"
    and "distinct (order1 {field \<in> api_fields. field \<noteq> []})"
    and "distinct (order2 {field \<in> api_fields. field \<noteq> []})"
    unfolding valid_set_order_def by blast+
  then have "mset (order1 {field \<in> api_fields. field \<noteq> []}) = mset (order2 {field \<in> api_fields. field \<noteq> []})"
    by (simp add: set_eq_iff_mset_eq_distinct)
  then have "sort (fold nested_fields_step nested_fields (order1 {field \<in> api_fields. field \<noteq> []}))
           = sort (fold nested_fields_step nested_fields (order2 {field \<in> api_fields. field \<noteq> []}))"
    by (intro sort_mset_cong nested_fields_fold_mset)
  then show ?thesis by (simp add: generate_api_fields_def st Let_def)
qed

theorem api_fields_deterministic_witness:
  "generate_api_fields (\<lambda>S. rev (sorted_list_of_set S)) example_columns
     = ''account_id,activities{actor_name}''"
proof -
  have v1: "valid_set_order sorted_list_of_set" by (simp add: valid_set_order_def)
  have v2: "valid_set_order (\<lambda>S. rev (sorted_list_of_set S))" by (simp add: valid_set_order_def)
  have "generate_api_fields sorted_list_of_set example_columns = ''account_id,activities{actor_name}''"
    by code_simp
  with api_fields_deterministic[OF v2 v1, of example_columns] show ?thesis by simp
qed

subsection \<open>Credit notes\<close>





end
